theory Spec2Isabelle
  imports Complex_Main "HOL-Library.Word"
begin

section \<open>Voxel raycasting (edition/raycast.cpp)\<close>

text \<open>
  A shallow embedding of \<^verbatim>\<open>src/edition/raycast.cpp\<close>. A value of the C++ type
  \<^verbatim>\<open>float\<close> is a \<^typ>\<open>real\<close>, and every arithmetic operation on floats is the exact
  operation followed by a rounding function \<open>rnd\<close>, as IEEE 754 defines the operations.
  The rounding function is a parameter of the model: a statement proved for every \<open>rnd\<close>
  holds for the binary32 arithmetic of the source, and the identity function gives exact
  arithmetic. Comparisons and \<^verbatim>\<open>Math::abs\<close> are exact. The literals \<^verbatim>\<open>0.f\<close> and
  \<^verbatim>\<open>0.5f\<close> are the numbers 0 and 0.5, which a binary format holds exactly; the literal
  \<^verbatim>\<open>0.000001f\<close> is the rounded number. Infinities and NaN are not represented.
  The fixed-width integers of the source (\<^verbatim>\<open>uint8_t\<close>, \<^verbatim>\<open>uint32_t\<close>, \<^verbatim>\<open>uint64_t\<close>) are
  words; grid coordinates and loop counters are \<^typ>\<open>int\<close>.
\<close>

subsection \<open>Vectors\<close>

text \<open>
  \<^verbatim>\<open>Vector3\<close> and \<^verbatim>\<open>Vector3i\<close> with the operators the file uses: \<^verbatim>\<open>+\<close>, \<^verbatim>\<open>-\<close>,
  multiplication and division by a scalar, \<^verbatim>\<open>distance_squared_to\<close> (the squared length
  \<^verbatim>\<open>x * x + y * y + z * z\<close> of the difference), and the conversion of an integer vector
  to a vector of floats. Each operation rounds each of its results.
\<close>

datatype Vector3 = Vector3 (vx: real) (vy: real) (vz: real)

datatype Vector3i = Vector3i (ix: int) (iy: int) (iz: int)

definition vadd :: "(real \<Rightarrow> real) \<Rightarrow> Vector3 \<Rightarrow> Vector3 \<Rightarrow> Vector3" where
  "vadd rnd a b = Vector3 (rnd (vx a + vx b)) (rnd (vy a + vy b)) (rnd (vz a + vz b))"

definition vsub :: "(real \<Rightarrow> real) \<Rightarrow> Vector3 \<Rightarrow> Vector3 \<Rightarrow> Vector3" where
  "vsub rnd a b = Vector3 (rnd (vx a - vx b)) (rnd (vy a - vy b)) (rnd (vz a - vz b))"

definition vmul :: "(real \<Rightarrow> real) \<Rightarrow> Vector3 \<Rightarrow> real \<Rightarrow> Vector3" where
  "vmul rnd a s = Vector3 (rnd (vx a * s)) (rnd (vy a * s)) (rnd (vz a * s))"

definition vdiv :: "(real \<Rightarrow> real) \<Rightarrow> Vector3 \<Rightarrow> real \<Rightarrow> Vector3" where
  "vdiv rnd a s = Vector3 (rnd (vx a / s)) (rnd (vy a / s)) (rnd (vz a / s))"

definition distance_squared_to :: "(real \<Rightarrow> real) \<Rightarrow> Vector3 \<Rightarrow> Vector3 \<Rightarrow> real" where
  "distance_squared_to rnd a b =
     (let v = vsub rnd b a
      in rnd (rnd (rnd (vx v * vx v) + rnd (vy v * vy v)) + rnd (vz v * vz v)))"

definition to_vec3 :: "(real \<Rightarrow> real) \<Rightarrow> Vector3i \<Rightarrow> Vector3" where
  "to_vec3 rnd p = Vector3 (rnd (real_of_int (ix p))) (rnd (real_of_int (iy p))) (rnd (real_of_int (iz p)))"

subsection \<open>Collaborators that are not part of this file\<close>

text \<open>
  The file calls functions that are declared in headers outside \<^verbatim>\<open>src/\<close>. They are
  parameters of the model, collected in one record:
  \<^item> the rounding of the type \<^verbatim>\<open>float\<close>;
  \<^item> \<^verbatim>\<open>get_sdf_interpolated\<close> (funcs.h): interpolates a field given on grid cells at a
    real position;
  \<^item> \<^verbatim>\<open>voxel_raycast\<close> (util/voxel_raycast.h): the grid traversal; the C++ function
    returns \<^verbatim>\<open>bool\<close> and writes four output parameters, the model returns them as an
    optional record;
  \<^item> \<^verbatim>\<open>constants::SDF_FAR_OUTSIDE\<close>;
  \<^item> the reading of the inactive member of the union \<^verbatim>\<open>VoxelSingleValue\<close>, which is a
    matter of memory layout;
  \<^item> \<^verbatim>\<open>AABB::intersects_segment\<close>, \<^verbatim>\<open>Transform3D::affine_inverse\<close> and
    \<^verbatim>\<open>Transform3D::xform\<close> of the engine. The type of transforms is the parameter
    \<open>'tr\<close>.
\<close>

record VoxelRaycastState =
  hit_position :: Vector3i

record traversal_hit =
  hit_pos :: Vector3i
  prev_pos :: Vector3i
  hit_distance :: real
  hit_distance_prev :: real

record AABB =
  aabb_position :: Vector3
  aabb_size :: Vector3

record 'tr externals =
  float_round :: "real \<Rightarrow> real"
  get_sdf_interpolated :: "(Vector3i \<Rightarrow> real) \<Rightarrow> Vector3 \<Rightarrow> real"
  voxel_raycast :: "Vector3 \<Rightarrow> Vector3 \<Rightarrow> (VoxelRaycastState \<Rightarrow> bool) \<Rightarrow> real \<Rightarrow> traversal_hit option"
  SDF_FAR_OUTSIDE :: real
  float_member_of_int :: "64 word \<Rightarrow> real"
  int_member_of_float :: "real \<Rightarrow> 64 word"
  intersects_segment :: "AABB \<Rightarrow> Vector3 \<Rightarrow> Vector3 \<Rightarrow> bool"
  affine_inverse :: "'tr \<Rightarrow> 'tr"
  xform :: "'tr \<Rightarrow> Vector3 \<Rightarrow> Vector3"

subsection \<open>Voxel values and voxel data\<close>

text \<open>
  \<^verbatim>\<open>VoxelSingleValue\<close> is a union of a \<^verbatim>\<open>float f\<close> and a \<^verbatim>\<open>uint64_t i\<close>. The model
  is a tagged value; reading the member that was not written goes through the record of
  collaborators.
\<close>

datatype VoxelSingleValue = ValueF real | ValueI "64 word"

fun member_f :: "'tr externals \<Rightarrow> VoxelSingleValue \<Rightarrow> real" where
  "member_f ext (ValueF x) = x"
| "member_f ext (ValueI n) = float_member_of_int ext n"

fun member_i :: "'tr externals \<Rightarrow> VoxelSingleValue \<Rightarrow> 64 word" where
  "member_i ext (ValueI n) = n"
| "member_i ext (ValueF x) = int_member_of_float ext x"

text \<open>The enumerators of \<^verbatim>\<open>VoxelBuffer::ChannelId\<close> that the file names.\<close>

datatype ChannelId = CHANNEL_TYPE | CHANNEL_SDF | CHANNEL_COLOR

type_synonym VoxelData = "Vector3i \<Rightarrow> ChannelId \<Rightarrow> VoxelSingleValue option"

text \<open>
  Modelled from the spec: \<^verbatim>\<open>VoxelData::get_voxel\<close> (storage/voxel_data.h is not under
  \<^verbatim>\<open>src/\<close>). The spec's contract: defined for every integer coordinate, never fails,
  returns the default when no data exists at that position. The stored data is a partial
  map from cell and channel to a value.
\<close>

definition get_voxel :: "VoxelData \<Rightarrow> Vector3i \<Rightarrow> ChannelId \<Rightarrow> VoxelSingleValue \<Rightarrow> VoxelSingleValue" where
  "get_voxel data pos channel defval = (case data pos channel of None \<Rightarrow> defval | Some v \<Rightarrow> v)"

subsection \<open>The binary-search refiner\<close>

text \<open>
  \<^verbatim>\<open>approximate_distance_to_isosurface_binary_search\<close> calls \<^verbatim>\<open>get_sdf_interpolated\<close> at
  five places. The model keeps a trace of these calls: each entry is the call site and the
  position that was sampled. The trace is ghost state; the distance the function returns
  does not depend on it.
\<close>

datatype sample_site = AtStart | NudgeBack | AtEnd | NudgeForward | Midpoint

type_synonym sample_trace = "(sample_site \<times> Vector3) list"

record bracket =
  d0 :: real
  sdf0 :: real
  d1 :: real
  sdf1 :: real
  trace :: sample_trace

text \<open>
  The sampler argument \<open>s\<close> of the loops stands for \<^verbatim>\<open>get_sdf_interpolated(f, _)\<close>.

  First loop (lines 30 to 33):
  \<^verbatim>\<open>for (int i = 0; i < 4 && sdf0 < 0.f; ++i) { d0 -= 0.5f; sdf0 = sample(pos0 + dir * d0); }\<close>
\<close>

function nudge_d0 ::
  "(real \<Rightarrow> real) \<Rightarrow> (Vector3 \<Rightarrow> real) \<Rightarrow> Vector3 \<Rightarrow> Vector3 \<Rightarrow> int \<Rightarrow> bracket \<Rightarrow> bracket" where
  "nudge_d0 rnd s pos0 dir i b =
     (if i < 4 \<and> sdf0 b < 0 then
        (let d = rnd (d0 b - 0.5);
             p = vadd rnd pos0 (vmul rnd dir d)
         in nudge_d0 rnd s pos0 dir (i + 1)
              (b\<lparr>d0 := d, sdf0 := s p, trace := trace b @ [(NudgeBack, p)]\<rparr>))
      else b)"
  by pat_completeness auto
termination
  by (relation "measure (\<lambda>(rnd, s, pos0, dir, i, b). nat (4 - i))") auto

text \<open>
  Second loop (lines 36 to 39):
  \<^verbatim>\<open>for (int i = 0; i < 4 && sdf1 > 0.f; ++i) { d1 += 0.5f; sdf1 = sample(pos0 + dir * d1); }\<close>
\<close>

function nudge_d1 ::
  "(real \<Rightarrow> real) \<Rightarrow> (Vector3 \<Rightarrow> real) \<Rightarrow> Vector3 \<Rightarrow> Vector3 \<Rightarrow> int \<Rightarrow> bracket \<Rightarrow> bracket" where
  "nudge_d1 rnd s pos0 dir i b =
     (if i < 4 \<and> sdf1 b > 0 then
        (let d = rnd (d1 b + 0.5);
             p = vadd rnd pos0 (vmul rnd dir d)
         in nudge_d1 rnd s pos0 dir (i + 1)
              (b\<lparr>d1 := d, sdf1 := s p, trace := trace b @ [(NudgeForward, p)]\<rparr>))
      else b)"
  by pat_completeness auto
termination
  by (relation "measure (\<lambda>(rnd, s, pos0, dir, i, b). nat (4 - i))") auto

text \<open>The body of the bisection loop (lines 44 to 53).\<close>

definition bisect_round ::
  "(real \<Rightarrow> real) \<Rightarrow> (Vector3 \<Rightarrow> real) \<Rightarrow> Vector3 \<Rightarrow> Vector3 \<Rightarrow> bracket \<Rightarrow> bracket" where
  "bisect_round rnd s pos0 dir b =
     (let dm = rnd (0.5 * rnd (d0 b + d1 b));
          p = vadd rnd pos0 (vmul rnd dir dm);
          sdf_mid = s p;
          t = trace b @ [(Midpoint, p)]
      in if (sdf_mid > 0) \<noteq> (sdf0 b > 0)
         then b\<lparr>sdf1 := sdf_mid, d1 := dm, trace := t\<rparr>
         else b\<lparr>sdf0 := sdf_mid, d0 := dm, trace := t\<rparr>)"

text \<open>The bisection loop (line 43): \<^verbatim>\<open>for (int i = 0; i < iterations; ++i)\<close>.\<close>

function bisect ::
  "(real \<Rightarrow> real) \<Rightarrow> (Vector3 \<Rightarrow> real) \<Rightarrow> Vector3 \<Rightarrow> Vector3 \<Rightarrow> int \<Rightarrow> int \<Rightarrow> bracket \<Rightarrow> bracket" where
  "bisect rnd s pos0 dir iterations i b =
     (if i < iterations
      then bisect rnd s pos0 dir iterations (i + 1) (bisect_round rnd s pos0 dir b)
      else b)"
  by pat_completeness auto
termination
  by (relation "measure (\<lambda>(rnd, s, pos0, dir, iterations, i, b). nat (iterations - i))") auto

text \<open>
  The bracket after the two nudging loops (lines 26 to 39). The variable \<^verbatim>\<open>sdf1\<close> is
  declared at line 35 only; the field \<open>sdf1\<close> of the bracket holds 0 until then and is not
  read by the first loop.
\<close>

definition nudged_bracket ::
  "(real \<Rightarrow> real) \<Rightarrow> (Vector3 \<Rightarrow> real) \<Rightarrow> Vector3 \<Rightarrow> Vector3 \<Rightarrow> real \<Rightarrow> bracket" where
  "nudged_bracket rnd s pos0 dir d1_initial =
     (let b0 = \<lparr>d0 = 0, sdf0 = s pos0, d1 = d1_initial, sdf1 = 0, trace = [(AtStart, pos0)]\<rparr>;
          b1 = nudge_d0 rnd s pos0 dir 0 b0;
          p1 = vadd rnd pos0 (vmul rnd dir (d1 b1));
          b2 = b1\<lparr>sdf1 := s p1, trace := trace b1 @ [(AtEnd, p1)]\<rparr>
      in nudge_d1 rnd s pos0 dir 0 b2)"

text \<open>The bracket when the function reaches line 57: after the optional bisection.\<close>

definition final_bracket ::
  "(real \<Rightarrow> real) \<Rightarrow> (Vector3 \<Rightarrow> real) \<Rightarrow> Vector3 \<Rightarrow> Vector3 \<Rightarrow> real \<Rightarrow> int \<Rightarrow> bracket" where
  "final_bracket rnd s pos0 dir d1_initial iterations =
     (let b = nudged_bracket rnd s pos0 dir d1_initial
      in if (sdf0 b > 0) \<noteq> (sdf1 b > 0) then bisect rnd s pos0 dir iterations 0 b else b)"

text \<open>Lines 57 to 62: pick the distance closest to the surface.\<close>

definition pick_closest :: "bracket \<Rightarrow> real" where
  "pick_closest b = (if \<bar>sdf0 b\<bar> < \<bar>sdf1 b\<bar> then d0 b else d1 b)"

text \<open>
  The function itself. \<open>f\<close> is the \<^verbatim>\<open>Volume_F\<close> argument, a field on grid cells; every
  sample is \<^verbatim>\<open>get_sdf_interpolated(f, _)\<close>. \<open>refiner_trace\<close> is the trace of the samples
  that the same call takes.
\<close>

definition approximate_distance_to_isosurface_binary_search ::
  "'tr externals \<Rightarrow> (Vector3i \<Rightarrow> real) \<Rightarrow> Vector3 \<Rightarrow> Vector3 \<Rightarrow> real \<Rightarrow> int \<Rightarrow> real" where
  "approximate_distance_to_isosurface_binary_search ext f pos0 dir d1_initial iterations =
     pick_closest
       (final_bracket (float_round ext) (get_sdf_interpolated ext f) pos0 dir d1_initial iterations)"

definition refiner_trace ::
  "'tr externals \<Rightarrow> (Vector3i \<Rightarrow> real) \<Rightarrow> Vector3 \<Rightarrow> Vector3 \<Rightarrow> real \<Rightarrow> int \<Rightarrow> sample_trace" where
  "refiner_trace ext f pos0 dir d1_initial iterations =
     trace
       (final_bracket (float_round ext) (get_sdf_interpolated ext f) pos0 dir d1_initial iterations)"

subsection \<open>The raycast functions\<close>

record VoxelRaycastResult =
  position :: Vector3i
  previous_position :: Vector3i
  distance_along_ray :: real

text \<open>
  The functions of this file read voxels in two ways only: through the predicate that they
  hand to \<^verbatim>\<open>voxel_raycast\<close>, which calls it, and through the sampler that the refiner
  hands to \<^verbatim>\<open>get_sdf_interpolated\<close>. Every raycast function of the model returns, beside
  its result, the list of the calls of these two collaborators that it makes, in order: a
  call of \<^verbatim>\<open>voxel_raycast\<close> with its origin, direction and maximal distance, or a sample
  of the refiner. No predicate is called and no voxel is read outside these calls. The
  list is ghost state; an absent result is \<open>None\<close>.
\<close>

datatype collaborator_call =
  VoxelRaycastCall Vector3 Vector3 real
| InterpolationCall sample_site Vector3

type_synonym raycast_outcome = "VoxelRaycastResult option \<times> collaborator_call list"

text \<open>The predicate of \<^verbatim>\<open>raycast_sdf\<close> (lines 80 to 90).\<close>

definition RaycastPredicate :: "'tr externals \<Rightarrow> VoxelData \<Rightarrow> VoxelRaycastState \<Rightarrow> bool" where
  "RaycastPredicate ext data rs =
     (let defval = ValueF (SDF_FAR_OUTSIDE ext);
          v = get_voxel data (hit_position rs) CHANNEL_SDF defval
      in member_f ext v < 0)"

text \<open>The sampler of \<^verbatim>\<open>raycast_sdf\<close> (lines 132 to 141).\<close>

definition VolumeSampler :: "'tr externals \<Rightarrow> VoxelData \<Rightarrow> Vector3i \<Rightarrow> real" where
  "VolumeSampler ext data pos =
     (let defval = ValueF (SDF_FAR_OUTSIDE ext);
          v = get_voxel data pos CHANNEL_SDF defval
      in member_f ext v)"

text \<open>
  \<^verbatim>\<open>raycast_sdf\<close> (lines 65 to 161). The \<^verbatim>\<open>uint8_t\<close> iteration count is converted to
  \<^verbatim>\<open>int\<close> when it is passed to the refiner.
\<close>

definition raycast_sdf ::
  "'tr externals \<Rightarrow> VoxelData \<Rightarrow> Vector3 \<Rightarrow> Vector3 \<Rightarrow> real \<Rightarrow> 8 word \<Rightarrow> raycast_outcome" where
  "raycast_sdf ext voxel_data ray_origin ray_dir max_distance binary_search_iterations =
     (let rnd = float_round ext;
          predicate = RaycastPredicate ext voxel_data;
          offset = Vector3 0.5 0.5 0.5;
          origin = vadd rnd ray_origin offset;
          traversal = VoxelRaycastCall origin ray_dir max_distance
      in case voxel_raycast ext origin ray_dir predicate max_distance of
           None \<Rightarrow> (None, [traversal])
         | Some h \<Rightarrow>
             (let sampler = VolumeSampler ext voxel_data;
                  pos0 = vadd rnd ray_origin (vmul rnd ray_dir (hit_distance_prev h));
                  d1 = rnd (hit_distance h - hit_distance_prev h);
                  iterations = uint binary_search_iterations;
                  d = (if binary_search_iterations > 0 then
                         rnd (hit_distance_prev h +
                           approximate_distance_to_isosurface_binary_search ext sampler
                             pos0 ray_dir d1 iterations)
                       else hit_distance h);
                  samples = (if binary_search_iterations > 0 then
                               map (\<lambda>(site, p). InterpolationCall site p)
                                 (refiner_trace ext sampler pos0 ray_dir d1 iterations)
                             else [])
              in (Some \<lparr>position = hit_pos h, previous_position = prev_pos h,
                         distance_along_ray = d\<rparr>,
                  traversal # samples)))"

text \<open>
  The blocky library's baked data: \<^verbatim>\<open>has_model\<close> and the indexing \<^verbatim>\<open>models[v]\<close> are
  functions of the voxel type, each model has a collision mask and a list of boxes.
\<close>

record ModelBakedData =
  box_collision_mask :: "32 word"
  box_collision_aabbs :: "AABB list"

record BakedData =
  has_model :: "int \<Rightarrow> bool"
  models :: "int \<Rightarrow> ModelBakedData"

text \<open>
  The predicate of \<^verbatim>\<open>raycast_blocky\<close> (lines 171 to 200). The \<^verbatim>\<open>uint64_t\<close> member is
  narrowed to \<^verbatim>\<open>int\<close>.
\<close>

definition RaycastPredicateBlocky ::
  "'tr externals \<Rightarrow> VoxelData \<Rightarrow> BakedData \<Rightarrow> 32 word \<Rightarrow> Vector3 \<Rightarrow> Vector3 \<Rightarrow> VoxelRaycastState \<Rightarrow> bool" where
  "RaycastPredicateBlocky ext data baked_data collision_mask p_from p_to rs =
     (let rnd = float_round ext;
          defval = ValueI 0;
          v = sint (ucast (member_i ext (get_voxel data (hit_position rs) CHANNEL_TYPE defval)) :: 32 word)
      in if has_model baked_data v = False then False
         else (let model = models baked_data v
               in if and (box_collision_mask model) collision_mask = 0 then False
                  else list_ex
                         (\<lambda>aabb. intersects_segment ext
                            \<lparr>aabb_position = vadd rnd (aabb_position aabb) (to_vec3 rnd (hit_position rs)),
                             aabb_size = aabb_size aabb\<rparr> p_from p_to)
                         (box_collision_aabbs model)))"

text \<open>
  A mesher is known to this file by its dynamic type only; a blocky mesher carries its
  library, which may be null. \<^verbatim>\<open>Ref<VoxelMesher>\<close> may itself be null: \<open>None\<close>.
\<close>

datatype VoxelMesher = VoxelMesherBlocky (get_library: "BakedData option") | VoxelMesherCubes | VoxelMesherOther

definition result_of_hit :: "traversal_hit \<Rightarrow> VoxelRaycastResult" where
  "result_of_hit h = \<lparr>position = hit_pos h, previous_position = prev_pos h,
                       distance_along_ray = hit_distance h\<rparr>"

text \<open>\<^verbatim>\<open>raycast_blocky\<close> (lines 163 to 232); its mesher argument is given by the library.\<close>

definition raycast_blocky ::
  "'tr externals \<Rightarrow> VoxelData \<Rightarrow> BakedData option \<Rightarrow> Vector3 \<Rightarrow> Vector3 \<Rightarrow> real \<Rightarrow> 32 word \<Rightarrow> raycast_outcome" where
  "raycast_blocky ext voxel_data library_ref ray_origin ray_dir max_distance p_collision_mask =
     (case library_ref of
        None \<Rightarrow> (None, [])
      | Some baked \<Rightarrow>
          (let rnd = float_round ext;
               predicate = RaycastPredicateBlocky ext voxel_data baked p_collision_mask
                             ray_origin (vadd rnd ray_origin (vmul rnd ray_dir max_distance))
           in (map_option result_of_hit (voxel_raycast ext ray_origin ray_dir predicate max_distance),
               [VoxelRaycastCall ray_origin ray_dir max_distance])))"

text \<open>\<^verbatim>\<open>raycast_nonzero\<close> and its predicate (lines 234 to 272).\<close>

definition RaycastPredicateColor :: "'tr externals \<Rightarrow> VoxelData \<Rightarrow> ChannelId \<Rightarrow> VoxelRaycastState \<Rightarrow> bool" where
  "RaycastPredicateColor ext data channel rs =
     (let defval = ValueI 0;
          v = member_i ext (get_voxel data (hit_position rs) channel defval)
      in v \<noteq> 0)"

definition raycast_nonzero ::
  "'tr externals \<Rightarrow> VoxelData \<Rightarrow> Vector3 \<Rightarrow> Vector3 \<Rightarrow> real \<Rightarrow> ChannelId \<Rightarrow> raycast_outcome" where
  "raycast_nonzero ext voxel_data ray_origin ray_dir max_distance p_channel =
     (let predicate = RaycastPredicateColor ext voxel_data p_channel
      in (map_option result_of_hit (voxel_raycast ext ray_origin ray_dir predicate max_distance),
          [VoxelRaycastCall ray_origin ray_dir max_distance]))"

text \<open>\<^verbatim>\<open>raycast_generic\<close> (lines 274 to 301): the two \<^verbatim>\<open>try_get_as\<close> casts in order.\<close>

definition raycast_generic ::
  "'tr externals \<Rightarrow> VoxelData \<Rightarrow> VoxelMesher option \<Rightarrow> Vector3 \<Rightarrow> Vector3 \<Rightarrow> real \<Rightarrow> 32 word \<Rightarrow> 8 word
     \<Rightarrow> raycast_outcome" where
  "raycast_generic ext voxel_data mesher ray_origin ray_dir max_distance p_collision_mask
       binary_search_iterations =
     (case mesher of
        Some (VoxelMesherBlocky library_ref) \<Rightarrow>
          raycast_blocky ext voxel_data library_ref ray_origin ray_dir max_distance p_collision_mask
      | Some VoxelMesherCubes \<Rightarrow>
          raycast_nonzero ext voxel_data ray_origin ray_dir max_distance CHANNEL_COLOR
      | _ \<Rightarrow> raycast_sdf ext voxel_data ray_origin ray_dir max_distance 0)"

text \<open>
  \<^verbatim>\<open>raycast_generic_world\<close> (lines 303 to 345). The guard of line 328 returns before any
  collaborator is called.
\<close>

definition raycast_generic_world ::
  "'tr externals \<Rightarrow> VoxelData \<Rightarrow> VoxelMesher option \<Rightarrow> 'tr \<Rightarrow> Vector3 \<Rightarrow> Vector3 \<Rightarrow> real \<Rightarrow> 32 word
     \<Rightarrow> 8 word \<Rightarrow> raycast_outcome" where
  "raycast_generic_world ext voxel_data mesher to_world ray_origin_world ray_dir_world
       max_distance_world p_collision_mask binary_search_iterations =
     (let rnd = float_round ext;
          ray_end_world = vadd rnd ray_origin_world (vmul rnd ray_dir_world max_distance_world);
          to_local = affine_inverse ext to_world;
          pos0_local = xform ext to_local ray_origin_world;
          pos1_local = xform ext to_local ray_end_world;
          max_distance_local_sq = distance_squared_to rnd pos0_local pos1_local
      in if max_distance_local_sq < rnd 0.000001 then (None, [])
         else
           (let max_distance_local = rnd (sqrt max_distance_local_sq);
                dir_local = vdiv rnd (vsub rnd pos1_local pos0_local) max_distance_local;
                (res, calls) = raycast_generic ext voxel_data mesher pos0_local dir_local
                                 max_distance_local p_collision_mask 0
            in case res of
                 None \<Rightarrow> (None, calls)
               | Some r \<Rightarrow>
                   (let max_distance_world_sq =
                          distance_squared_to rnd ray_origin_world ray_end_world;
                        to_world_scale = rnd (max_distance_world_sq / max_distance_local_sq)
                    in (Some (r\<lparr>distance_along_ray :=
                                  rnd (distance_along_ray r * to_world_scale)\<rparr>),
                        calls))))"

subsection \<open>Notions of the specification of the refiner\<close>

text \<open>
  The distances that the nudging loops reach: \<open>j\<close> float steps of 0.5 back from 0, and
  \<open>j\<close> float steps of 0.5 forward from \<open>d1_initial\<close>. In exact arithmetic they are
  \<open>- 0.5 * j\<close> and \<open>d1_initial + 0.5 * j\<close>.
\<close>

definition back_dist :: "(real \<Rightarrow> real) \<Rightarrow> nat \<Rightarrow> real" where
  "back_dist rnd j = ((\<lambda>d. rnd (d - 0.5)) ^^ j) 0"

definition forward_dist :: "(real \<Rightarrow> real) \<Rightarrow> real \<Rightarrow> nat \<Rightarrow> real" where
  "forward_dist rnd d1_initial j = ((\<lambda>d. rnd (d + 0.5)) ^^ j) d1_initial"

text \<open>
  The points that the loops sample there. The first sample behind the start is taken at
  \<open>pos0\<close> itself (line 27).
\<close>

definition back_point :: "(real \<Rightarrow> real) \<Rightarrow> Vector3 \<Rightarrow> Vector3 \<Rightarrow> nat \<Rightarrow> Vector3" where
  "back_point rnd pos0 dir j =
     (if j = 0 then pos0 else vadd rnd pos0 (vmul rnd dir (back_dist rnd j)))"

definition forward_point :: "(real \<Rightarrow> real) \<Rightarrow> Vector3 \<Rightarrow> Vector3 \<Rightarrow> real \<Rightarrow> nat \<Rightarrow> Vector3" where
  "forward_point rnd pos0 dir d1_initial j =
     vadd rnd pos0 (vmul rnd dir (forward_dist rnd d1_initial j))"

text \<open>
  The number of steps the specification prescribes: step while the sampled value is
  negative (backward) or positive (forward), at most four times.
\<close>

definition back_steps :: "(real \<Rightarrow> real) \<Rightarrow> (Vector3 \<Rightarrow> real) \<Rightarrow> Vector3 \<Rightarrow> Vector3 \<Rightarrow> nat" where
  "back_steps rnd s pos0 dir =
     length (takeWhile (\<lambda>j. s (back_point rnd pos0 dir j) < 0) [0..<4])"

definition forward_steps ::
  "(real \<Rightarrow> real) \<Rightarrow> (Vector3 \<Rightarrow> real) \<Rightarrow> Vector3 \<Rightarrow> Vector3 \<Rightarrow> real \<Rightarrow> nat" where
  "forward_steps rnd s pos0 dir d1_initial =
     length (takeWhile (\<lambda>j. s (forward_point rnd pos0 dir d1_initial j) > 0) [0..<4])"

text \<open>The two endpoint values differ in sign, under the test \<^verbatim>\<open>value > 0\<close> of line 41.\<close>

definition signs_differ :: "bracket \<Rightarrow> bool" where
  "signs_differ b = ((sdf0 b > 0) \<noteq> (sdf1 b > 0))"


text \<open>The number of calls of the sampler that a trace records for one call site.\<close>

definition count_site :: "sample_site \<Rightarrow> sample_trace \<Rightarrow> nat" where
  "count_site site tr = length (filter (\<lambda>e. fst e = site) tr)"

text \<open>
  A bisection round as the specification words it: sample the midpoint, and replace the
  endpoint whose value has the midpoint's sign; a bracket none of whose endpoints has that
  sign is left as it is. The midpoint is the float \<open>(d0 + d1) / 2\<close>.
\<close>

definition replace_same_sign ::
  "(real \<Rightarrow> real) \<Rightarrow> (Vector3 \<Rightarrow> real) \<Rightarrow> Vector3 \<Rightarrow> Vector3 \<Rightarrow> bracket \<Rightarrow> bracket" where
  "replace_same_sign rnd s pos0 dir b =
     (let dm = rnd (rnd (d0 b + d1 b) / 2);
          p = vadd rnd pos0 (vmul rnd dir dm);
          m = s p
      in if (m > 0) = (sdf0 b > 0) then b\<lparr>d0 := dm, sdf0 := m, trace := trace b @ [(Midpoint, p)]\<rparr>
         else if (m > 0) = (sdf1 b > 0) then b\<lparr>d1 := dm, sdf1 := m, trace := trace b @ [(Midpoint, p)]\<rparr>
         else b)"





text \<open>Exact arithmetic: no rounding.\<close>

definition exact :: "real \<Rightarrow> real" where
  "exact x = x"

subsection \<open>The binary32 format\<close>

text \<open>
  Rounding to the nearest number of the IEEE 754 binary32 format, ties to the even
  significand: a number \<open>x\<close> with \<open>2 ^ e \<le> \<bar>x\<bar> < 2 ^ (e + 1)\<close> is rounded to a multiple
  of \<open>2 ^ (e - 23)\<close>, and numbers below \<open>2 ^ - 126\<close> to a multiple of \<open>2 ^ - 149\<close>.
  Overflow to infinity (beyond about \<open>3.4 * 10 ^ 38\<close>) is not represented.
\<close>

text \<open>The number of binary digits of a positive integer.\<close>

function bit_length :: "int \<Rightarrow> int" where
  "bit_length n = (if n \<le> 0 then 0 else 1 + bit_length (n div 2))"
  by pat_completeness auto
termination
  by (relation "measure nat") auto

text \<open>The integer \<open>e\<close> with \<open>2 ^ e \<le> \<bar>x\<bar> < 2 ^ (e + 1)\<close>, for \<open>x \<noteq> 0\<close>.\<close>

definition binary_exponent :: "real \<Rightarrow> int" where
  "binary_exponent x =
     (if 1 \<le> \<bar>x\<bar> then bit_length \<lfloor>\<bar>x\<bar>\<rfloor> - 1
      else - bit_length (\<lceil>1 / \<bar>x\<bar>\<rceil> - 1))"

definition pow2 :: "int \<Rightarrow> real" where
  "pow2 k = (if 0 \<le> k then 2 ^ nat k else 1 / 2 ^ nat (- k))"

definition round_half_even :: "real \<Rightarrow> int" where
  "round_half_even y =
     (let n = \<lfloor>y\<rfloor>;
          r = y - real_of_int n
      in if r < 1 / 2 then n
         else if 1 / 2 < r then n + 1
         else if even n then n else n + 1)"

definition round_binary32 :: "real \<Rightarrow> real" where
  "round_binary32 x =
     (if x = 0 then 0
      else (let e = max (binary_exponent x) (- 126);
                q = pow2 (e - 23)
            in q * real_of_int (round_half_even (x / q))))"

subsection \<open>An instance of the collaborators\<close>

text \<open>
  Concrete collaborators, used where a statement is evaluated on an input. First the cell
  that contains a position, linear interpolation, and the neighbours of a cell.
\<close>

definition floor_to_int :: "Vector3 \<Rightarrow> Vector3i" where
  "floor_to_int v = Vector3i \<lfloor>vx v\<rfloor> \<lfloor>vy v\<rfloor> \<lfloor>vz v\<rfloor>"

definition lerp :: "real \<Rightarrow> real \<Rightarrow> real \<Rightarrow> real" where
  "lerp a b t = a + (b - a) * t"

definition cell_offset :: "Vector3i \<Rightarrow> int \<Rightarrow> int \<Rightarrow> int \<Rightarrow> Vector3i" where
  "cell_offset c dx dy dz = Vector3i (ix c + dx) (iy c + dy) (iz c + dz)"

text \<open>
  Modelled from the spec: \<^verbatim>\<open>get_sdf_interpolated\<close> (funcs.h is not under \<^verbatim>\<open>src/\<close>).
  Section 4.2 of the specification asks for an interpolated value at a position that may
  be non-integer and names trilinear interpolation: the value is interpolated between the
  eight cells around the position. At a position with integer coordinates it is the value
  of that cell.
\<close>

definition trilinear_sample :: "(Vector3i \<Rightarrow> real) \<Rightarrow> Vector3 \<Rightarrow> real" where
  "trilinear_sample f p =
     (let c = floor_to_int p;
          fx = vx p - real_of_int (ix c);
          fy = vy p - real_of_int (iy c);
          fz = vz p - real_of_int (iz c)
      in lerp
           (lerp (lerp (f (cell_offset c 0 0 0)) (f (cell_offset c 1 0 0)) fx)
                 (lerp (f (cell_offset c 0 1 0)) (f (cell_offset c 1 1 0)) fx) fy)
           (lerp (lerp (f (cell_offset c 0 0 1)) (f (cell_offset c 1 0 1)) fx)
                 (lerp (f (cell_offset c 0 1 1)) (f (cell_offset c 1 1 1)) fx) fy)
           fz)"

text \<open>
  The state of a grid traversal: for each axis the distance at which the ray next crosses
  a cell boundary on that axis, \<open>None\<close> when the ray does not move along the axis.
  Distances are in units of the direction vector. Of boundaries crossed at the same
  distance, the one on the x axis is taken first, then the one on the y axis.
\<close>

datatype axis = AxisX | AxisY | AxisZ

fun component :: "Vector3 \<Rightarrow> axis \<Rightarrow> real" where
  "component v AxisX = vx v"
| "component v AxisY = vy v"
| "component v AxisZ = vz v"

definition first_cross :: "real \<Rightarrow> real \<Rightarrow> real option" where
  "first_cross x d =
     (if d > 0 then Some ((real_of_int \<lfloor>x\<rfloor> + 1 - x) / d)
      else if d < 0 then Some ((x - real_of_int \<lfloor>x\<rfloor>) / (- d))
      else None)"

definition next_cross_after :: "real \<Rightarrow> real \<Rightarrow> real option" where
  "next_cross_after tc d = (if d = 0 then None else Some (tc + 1 / \<bar>d\<bar>))"

fun earlier :: "(axis \<times> real) option \<Rightarrow> axis \<Rightarrow> real option \<Rightarrow> (axis \<times> real) option" where
  "earlier best a None = best"
| "earlier None a (Some t) = Some (a, t)"
| "earlier (Some (b, u)) a (Some t) = (if t < u then Some (a, t) else Some (b, u))"

definition next_boundary :: "(axis \<Rightarrow> real option) \<Rightarrow> (axis \<times> real) option" where
  "next_boundary cross =
     earlier (earlier (earlier None AxisX (cross AxisX)) AxisY (cross AxisY)) AxisZ (cross AxisZ)"

fun step_cell :: "Vector3i \<Rightarrow> axis \<Rightarrow> real \<Rightarrow> Vector3i" where
  "step_cell c AxisX d = Vector3i (ix c + (if d > 0 then 1 else - 1)) (iy c) (iz c)"
| "step_cell c AxisY d = Vector3i (ix c) (iy c + (if d > 0 then 1 else - 1)) (iz c)"
| "step_cell c AxisZ d = Vector3i (ix c) (iy c) (iz c + (if d > 0 then 1 else - 1))"

text \<open>
  The number of boundaries on one axis that the ray still crosses within \<open>max_distance\<close>;
  the sum over the axes decreases with every step of the traversal.
\<close>

definition crossings_left :: "real \<Rightarrow> real option \<Rightarrow> real \<Rightarrow> nat" where
  "crossings_left maxd c d =
     (case c of None \<Rightarrow> 0
      | Some tc \<Rightarrow> if tc \<le> maxd then (if d = 0 then 1 else nat \<lfloor>(maxd - tc) * \<bar>d\<bar>\<rfloor> + 1) else 0)"

definition traversal_measure :: "Vector3 \<Rightarrow> real \<Rightarrow> (axis \<Rightarrow> real option) \<Rightarrow> nat" where
  "traversal_measure dir maxd cross =
     crossings_left maxd (cross AxisX) (vx dir) + crossings_left maxd (cross AxisY) (vy dir)
       + crossings_left maxd (cross AxisZ) (vz dir)"

lemma earlier_cases:
  "earlier best a c = Some (b, t) \<Longrightarrow> best = Some (b, t) \<or> (b = a \<and> c = Some t)"
  by (cases "(best, a, c)" rule: earlier.cases) (auto split: if_splits)

lemma next_boundary_Some: "next_boundary cross = Some (a, tc) \<Longrightarrow> cross a = Some tc"
  unfolding next_boundary_def
  by (metis earlier_cases option.distinct(1))

lemma crossings_left_decreases:
  assumes "tc \<le> maxd"
  shows "crossings_left maxd (next_cross_after tc d) d < crossings_left maxd (Some tc) d"
proof (cases "d = 0")
  case True
  then show ?thesis using assms by (simp add: crossings_left_def next_cross_after_def)
next
  case False
  then have pos: "0 < \<bar>d\<bar>" by simp
  have eq: "(maxd - (tc + 1 / \<bar>d\<bar>)) * \<bar>d\<bar> = (maxd - tc) * \<bar>d\<bar> - 1"
    using pos by (simp add: field_simps)
  show ?thesis
  proof (cases "tc + 1 / \<bar>d\<bar> \<le> maxd")
    case True
    then have "0 \<le> (maxd - (tc + 1 / \<bar>d\<bar>)) * \<bar>d\<bar>" using pos by simp
    then have "1 \<le> (maxd - tc) * \<bar>d\<bar>" using eq by linarith
    then have "1 \<le> \<lfloor>(maxd - tc) * \<bar>d\<bar>\<rfloor>" by linarith
    moreover have "\<lfloor>(maxd - (tc + 1 / \<bar>d\<bar>)) * \<bar>d\<bar>\<rfloor> = \<lfloor>(maxd - tc) * \<bar>d\<bar>\<rfloor> - 1"
      unfolding eq by linarith
    ultimately show ?thesis
      using assms True False by (simp add: crossings_left_def next_cross_after_def)
  next
    case nle: False
    then show ?thesis
      using assms False by (simp add: crossings_left_def next_cross_after_def)
  qed
qed

lemma traversal_measure_decreases:
  assumes "next_boundary cross = Some (a, tc)" and "\<not> max_distance < tc"
  shows "traversal_measure dir max_distance (cross(a := next_cross_after tc (component dir a)))
           < traversal_measure dir max_distance cross"
proof -
  from assms(1) have ca: "cross a = Some tc" by (rule next_boundary_Some)
  from assms(2) have le: "tc \<le> max_distance" by simp
  show ?thesis
    using crossings_left_decreases [OF le, of "component dir a"] ca
    by (cases a) (simp_all add: traversal_measure_def)
qed

text \<open>
  Modelled from the spec: the loop of \<^verbatim>\<open>voxel_raycast\<close> (util/voxel_raycast.h is not
  under \<^verbatim>\<open>src/\<close>). Section 4.1 of the specification: at each step the traversal advances
  to the next cell boundary the ray crosses, in increasing distance order, and calls the
  predicate on the cell it enters; it stops with the current and the previous cell and
  their entry distances as soon as the predicate holds, and returns no hit once the
  distance exceeds \<open>max_distance\<close>.
\<close>

function traverse ::
  "(VoxelRaycastState \<Rightarrow> bool) \<Rightarrow> Vector3 \<Rightarrow> real \<Rightarrow> Vector3i \<Rightarrow> real \<Rightarrow> (axis \<Rightarrow> real option)
     \<Rightarrow> traversal_hit option" where
  "traverse predicate dir max_distance cell t cross =
     (case next_boundary cross of
        None \<Rightarrow> None
      | Some (a, tc) \<Rightarrow>
          if tc > max_distance then None
          else
            (let next_cell = step_cell cell a (component dir a)
             in if predicate \<lparr>hit_position = next_cell\<rparr>
                then Some \<lparr>hit_pos = next_cell, prev_pos = cell, hit_distance = tc,
                           hit_distance_prev = t\<rparr>
                else traverse predicate dir max_distance next_cell tc
                       (cross(a := next_cross_after tc (component dir a)))))"
  by pat_completeness auto
termination
  by (relation "measure (\<lambda>(predicate, dir, max_distance, cell, t, cross).
          traversal_measure dir max_distance cross)")
     (auto simp: traversal_measure_decreases)


text \<open>
  Modelled from the spec: \<^verbatim>\<open>voxel_raycast\<close> (util/voxel_raycast.h is not under
  \<^verbatim>\<open>src/\<close>). The traversal starts in the cell of the ray origin at distance 0, with the
  first boundary on each axis. The predicate is called on the cells the ray enters, not on
  the cell of the origin: with \<open>max_distance = 0\<close> no cell is reached (section 8 of the
  specification). No evaluation below has a hit in the cell of the origin.
\<close>

definition voxel_raycast_model ::
  "Vector3 \<Rightarrow> Vector3 \<Rightarrow> (VoxelRaycastState \<Rightarrow> bool) \<Rightarrow> real \<Rightarrow> traversal_hit option" where
  "voxel_raycast_model ray_origin ray_direction predicate max_distance =
     traverse predicate ray_direction max_distance (floor_to_int ray_origin) 0
       (\<lambda>a. first_cross (component ray_origin a) (component ray_direction a))"

text \<open>
  The instance, in exact arithmetic. A transform is a translation, given by its offset, so
  the identity transform is the zero offset. The sentinel is 100. The members of the
  instance that no evaluation below reaches (the union's inactive member, the box test)
  are constant. \<open>binary32_externals\<close> is the same instance with binary32 rounding in the
  functions of the file; the interpolation and the traversal, which stand for code outside
  the file, compute exactly in both instances.
\<close>

definition model_externals :: "Vector3 externals" where
  "model_externals =
     \<lparr>float_round = exact,
      get_sdf_interpolated = trilinear_sample,
      voxel_raycast = voxel_raycast_model,
      SDF_FAR_OUTSIDE = 100,
      float_member_of_int = (\<lambda>n. 0),
      int_member_of_float = (\<lambda>x. 0),
      intersects_segment = (\<lambda>box p_from p_to. False),
      affine_inverse = (\<lambda>t. vmul exact t (- 1)),
      xform = (\<lambda>t p. vadd exact p t)\<rparr>"

definition binary32_externals :: "Vector3 externals" where
  "binary32_externals = model_externals\<lparr>float_round := round_binary32\<rparr>"

subsection \<open>Example inputs\<close>

text \<open>
  Fields that depend on the x coordinate of the cell only. \<open>field_inside\<close> is negative
  everywhere; \<open>field_outside\<close> is 1 everywhere; \<open>field_wavy\<close> is positive up to \<open>x = - 2\<close>, negative up to \<open>x = 0\<close>,
  positive up to \<open>x = 2\<close> and negative beyond.
\<close>

definition field_inside :: "Vector3i \<Rightarrow> real" where
  "field_inside c = (if ix c = - 4 then - 1 else - 2)"

definition field_outside :: "Vector3i \<Rightarrow> real" where
  "field_outside c = 1"

definition field_wavy :: "Vector3i \<Rightarrow> real" where
  "field_wavy c = (if ix c \<le> - 2 then 1 else if ix c \<le> 0 then - 1 else if ix c \<le> 2 then 2 else - 3)"

text \<open>
  Voxel data with a wall: the SDF channel is 1 in the cells with \<open>x < 3\<close> and \<open>- 3\<close> in
  the cells with \<open>x \<ge> 3\<close>; the colour channel has data in the cell \<open>(1, 0, 0)\<close> only; the
  type channel has no data.
\<close>

definition wall_data :: VoxelData where
  "wall_data pos channel =
     (case channel of
        CHANNEL_SDF \<Rightarrow> Some (ValueF (if 3 \<le> ix pos then - 3 else 1))
      | CHANNEL_COLOR \<Rightarrow> (if pos = Vector3i 1 0 0 then Some (ValueI 1) else None)
      | CHANNEL_TYPE \<Rightarrow> None)"

section \<open>Properties\<close>

subsection \<open>The nudging loops in closed form\<close>

declare nudge_d0.simps [simp del] nudge_d1.simps [simp del] bisect.simps [simp del]
  bit_length.simps [simp del]

lemma back_dist_Suc: "back_dist rnd (Suc n) = rnd (back_dist rnd n - 0.5)"
  by (simp add: back_dist_def)

lemma forward_dist_Suc: "forward_dist rnd d1_initial (Suc n) = rnd (forward_dist rnd d1_initial n + 0.5)"
  by (simp add: forward_dist_def)

lemma back_dist_0: "back_dist rnd 0 = 0"
  by (simp add: back_dist_def)

lemma forward_dist_0: "forward_dist rnd d1_initial 0 = d1_initial"
  by (simp add: forward_dist_def)

lemma back_point_Suc:
  "back_point rnd pos0 dir (Suc n) = vadd rnd pos0 (vmul rnd dir (rnd (back_dist rnd n - 0.5)))"
  by (simp add: back_point_def back_dist_Suc)

lemma forward_point_Suc:
  "forward_point rnd pos0 dir d1_initial (Suc n) =
     vadd rnd pos0 (vmul rnd dir (rnd (forward_dist rnd d1_initial n + 0.5)))"
  by (simp add: forward_point_def forward_dist_Suc)

lemma nudge_d0_from:
  assumes "n \<le> 4" and "d0 b = back_dist rnd n" and "sdf0 b = s (back_point rnd pos0 dir n)"
  shows "nudge_d0 rnd s pos0 dir (int n) b =
           (let k = n + length (takeWhile (\<lambda>j. s (back_point rnd pos0 dir j) < 0) [n..<4])
            in b\<lparr>d0 := back_dist rnd k, sdf0 := s (back_point rnd pos0 dir k),
                 trace := trace b @ map (\<lambda>j. (NudgeBack, back_point rnd pos0 dir j)) [Suc n..<Suc k]\<rparr>)"
  using assms
proof (induction "4 - n" arbitrary: n b)
  case 0
  then have "n = 4" by simp
  with 0 show ?case by (simp add: nudge_d0.simps)
next
  case (Suc m)
  then have n4: "n < 4" by simp
  show ?case
  proof (cases "sdf0 b < 0")
    case False
    with Suc.prems n4 show ?thesis
      by (simp add: nudge_d0.simps upt_conv_Cons)
  next
    case True
    let ?d = "rnd (d0 b - 0.5)"
    let ?p = "vadd rnd pos0 (vmul rnd dir ?d)"
    let ?b = "b\<lparr>d0 := ?d, sdf0 := s ?p, trace := trace b @ [(NudgeBack, ?p)]\<rparr>"
    have dd: "?d = back_dist rnd (Suc n)"
      using Suc.prems(2) by (simp add: back_dist_Suc)
    have pt: "?p = back_point rnd pos0 dir (Suc n)"
      using Suc.prems(2) by (simp add: back_point_Suc)
    have step: "nudge_d0 rnd s pos0 dir (int n) b = nudge_d0 rnd s pos0 dir (int (Suc n)) ?b"
      using True n4 by (subst nudge_d0.simps) (simp add: Let_def add.commute)
    have ih: "nudge_d0 rnd s pos0 dir (int (Suc n)) ?b =
           (let k = Suc n + length (takeWhile (\<lambda>j. s (back_point rnd pos0 dir j) < 0) [Suc n..<4])
            in ?b\<lparr>d0 := back_dist rnd k, sdf0 := s (back_point rnd pos0 dir k),
                 trace := trace ?b @ map (\<lambda>j. (NudgeBack, back_point rnd pos0 dir j)) [Suc (Suc n)..<Suc k]\<rparr>)"
    proof (rule Suc.hyps(1))
      show "m = 4 - Suc n" using Suc.hyps(2) by simp
      show "Suc n \<le> 4" using n4 by simp
      show "d0 ?b = back_dist rnd (Suc n)" using dd by simp
      show "sdf0 ?b = s (back_point rnd pos0 dir (Suc n))" using pt by simp
    qed
    have tw: "takeWhile (\<lambda>j. s (back_point rnd pos0 dir j) < 0) [n..<4] =
                n # takeWhile (\<lambda>j. s (back_point rnd pos0 dir j) < 0) [Suc n..<4]"
      using True n4 Suc.prems(3) by (simp add: upt_conv_Cons)
    have up: "[Suc n..<Suc (Suc (n + l))] = Suc n # [Suc (Suc n)..<Suc (Suc (n + l))]" for l
      by (rule upt_conv_Cons) simp
    show ?thesis
      unfolding step ih tw
      using pt by (simp add: Let_def up del: upt_Suc)
  qed
qed

lemma nudge_d1_from:
  assumes "n \<le> 4" and "d1 b = forward_dist rnd d1_initial n"
    and "sdf1 b = s (forward_point rnd pos0 dir d1_initial n)"
  shows "nudge_d1 rnd s pos0 dir (int n) b =
           (let k = n + length (takeWhile (\<lambda>j. s (forward_point rnd pos0 dir d1_initial j) > 0) [n..<4])
            in b\<lparr>d1 := forward_dist rnd d1_initial k,
                 sdf1 := s (forward_point rnd pos0 dir d1_initial k),
                 trace := trace b @
                   map (\<lambda>j. (NudgeForward, forward_point rnd pos0 dir d1_initial j)) [Suc n..<Suc k]\<rparr>)"
  using assms
proof (induction "4 - n" arbitrary: n b)
  case 0
  then have "n = 4" by simp
  with 0 show ?case by (simp add: nudge_d1.simps)
next
  case (Suc m)
  then have n4: "n < 4" by simp
  show ?case
  proof (cases "sdf1 b > 0")
    case False
    with Suc.prems n4 show ?thesis
      by (simp add: nudge_d1.simps upt_conv_Cons)
  next
    case True
    let ?d = "rnd (d1 b + 0.5)"
    let ?p = "vadd rnd pos0 (vmul rnd dir ?d)"
    let ?b = "b\<lparr>d1 := ?d, sdf1 := s ?p, trace := trace b @ [(NudgeForward, ?p)]\<rparr>"
    have dd: "?d = forward_dist rnd d1_initial (Suc n)"
      using Suc.prems(2) by (simp add: forward_dist_Suc)
    have pt: "?p = forward_point rnd pos0 dir d1_initial (Suc n)"
      using Suc.prems(2) by (simp add: forward_point_Suc)
    have step: "nudge_d1 rnd s pos0 dir (int n) b = nudge_d1 rnd s pos0 dir (int (Suc n)) ?b"
      using True n4 by (subst nudge_d1.simps) (simp add: Let_def add.commute)
    have ih: "nudge_d1 rnd s pos0 dir (int (Suc n)) ?b =
           (let k = Suc n + length (takeWhile (\<lambda>j. s (forward_point rnd pos0 dir d1_initial j) > 0) [Suc n..<4])
            in ?b\<lparr>d1 := forward_dist rnd d1_initial k,
                 sdf1 := s (forward_point rnd pos0 dir d1_initial k),
                 trace := trace ?b @
                   map (\<lambda>j. (NudgeForward, forward_point rnd pos0 dir d1_initial j)) [Suc (Suc n)..<Suc k]\<rparr>)"
    proof (rule Suc.hyps(1))
      show "m = 4 - Suc n" using Suc.hyps(2) by simp
      show "Suc n \<le> 4" using n4 by simp
      show "d1 ?b = forward_dist rnd d1_initial (Suc n)" using dd by simp
      show "sdf1 ?b = s (forward_point rnd pos0 dir d1_initial (Suc n))" using pt by simp
    qed
    have tw: "takeWhile (\<lambda>j. s (forward_point rnd pos0 dir d1_initial j) > 0) [n..<4] =
                n # takeWhile (\<lambda>j. s (forward_point rnd pos0 dir d1_initial j) > 0) [Suc n..<4]"
      using True n4 Suc.prems(3) by (simp add: upt_conv_Cons)
    have up: "[Suc n..<Suc (Suc (n + l))] = Suc n # [Suc (Suc n)..<Suc (Suc (n + l))]" for l
      by (rule upt_conv_Cons) simp
    show ?thesis
      unfolding step ih tw
      using pt by (simp add: Let_def up del: upt_Suc)
  qed
qed

lemma back_point_0: "back_point rnd pos0 dir 0 = pos0"
  by (simp add: back_point_def)

lemma forward_point_0:
  "forward_point rnd pos0 dir d1_initial 0 = vadd rnd pos0 (vmul rnd dir d1_initial)"
  by (simp add: forward_point_def forward_dist_0)

lemma back_steps_le: "back_steps rnd s pos0 dir \<le> 4"
  unfolding back_steps_def using length_takeWhile_le [of _ "[0..<4]"] by (metis length_upt diff_zero)

lemma forward_steps_le: "forward_steps rnd s pos0 dir d1_initial \<le> 4"
  unfolding forward_steps_def using length_takeWhile_le [of _ "[0..<4]"] by (metis length_upt diff_zero)

lemma nudged_bracket_eq:
  "nudged_bracket rnd s pos0 dir d1_initial =
     \<lparr>d0 = back_dist rnd (back_steps rnd s pos0 dir),
      sdf0 = s (back_point rnd pos0 dir (back_steps rnd s pos0 dir)),
      d1 = forward_dist rnd d1_initial (forward_steps rnd s pos0 dir d1_initial),
      sdf1 = s (forward_point rnd pos0 dir d1_initial (forward_steps rnd s pos0 dir d1_initial)),
      trace = (AtStart, pos0) #
        map (\<lambda>j. (NudgeBack, back_point rnd pos0 dir j)) [1..<Suc (back_steps rnd s pos0 dir)] @
        (AtEnd, vadd rnd pos0 (vmul rnd dir d1_initial)) #
        map (\<lambda>j. (NudgeForward, forward_point rnd pos0 dir d1_initial j))
          [1..<Suc (forward_steps rnd s pos0 dir d1_initial)]\<rparr>"
proof -
  let ?b0 = "\<lparr>d0 = 0, sdf0 = s pos0, d1 = d1_initial, sdf1 = 0, trace = [(AtStart, pos0)]\<rparr>"
  have b1: "nudge_d0 rnd s pos0 dir 0 ?b0 =
      ?b0\<lparr>d0 := back_dist rnd (back_steps rnd s pos0 dir),
          sdf0 := s (back_point rnd pos0 dir (back_steps rnd s pos0 dir)),
          trace := trace ?b0 @
            map (\<lambda>j. (NudgeBack, back_point rnd pos0 dir j)) [1..<Suc (back_steps rnd s pos0 dir)]\<rparr>"
    using nudge_d0_from [of 0 ?b0 rnd s pos0 dir]
    by (simp add: back_point_0 back_dist_0 back_steps_def Let_def del: upt_Suc)
  let ?b1 = "nudge_d0 rnd s pos0 dir 0 ?b0"
  let ?b2 = "?b1\<lparr>sdf1 := s (vadd rnd pos0 (vmul rnd dir (d1 ?b1))),
                  trace := trace ?b1 @ [(AtEnd, vadd rnd pos0 (vmul rnd dir (d1 ?b1)))]\<rparr>"
  have d1b1: "d1 ?b1 = d1_initial" by (simp add: b1)
  have b3: "nudge_d1 rnd s pos0 dir 0 ?b2 =
      ?b2\<lparr>d1 := forward_dist rnd d1_initial (forward_steps rnd s pos0 dir d1_initial),
          sdf1 := s (forward_point rnd pos0 dir d1_initial (forward_steps rnd s pos0 dir d1_initial)),
          trace := trace ?b2 @ map (\<lambda>j. (NudgeForward, forward_point rnd pos0 dir d1_initial j))
             [1..<Suc (forward_steps rnd s pos0 dir d1_initial)]\<rparr>"
    using nudge_d1_from [of 0 ?b2 rnd d1_initial s pos0 dir]
    by (simp add: d1b1 forward_point_0 forward_dist_0 forward_steps_def Let_def del: upt_Suc)
  have "nudged_bracket rnd s pos0 dir d1_initial = nudge_d1 rnd s pos0 dir 0 ?b2"
    by (simp add: nudged_bracket_def Let_def)
  also note b3
  finally show ?thesis
    by (simp add: b1 del: upt_Suc)
qed

lemma back_dist_exact:
  "(\<forall>j. 0 < j \<and> j \<le> k \<longrightarrow> rnd (- 0.5 * real j) = - 0.5 * real j) \<Longrightarrow> back_dist rnd k = - 0.5 * real k"
proof (induction k)
  case 0
  show ?case by (simp add: back_dist_0)
next
  case (Suc k)
  then have ih: "back_dist rnd k = - 0.5 * real k" by simp
  have "rnd (- 0.5 * real (Suc k)) = - 0.5 * real (Suc k)"
    using Suc.prems by blast
  moreover have "- 0.5 * real k - 0.5 = - 0.5 * real (Suc k)"
    by (simp add: field_simps)
  ultimately show ?case
    by (simp only: back_dist_Suc ih)
qed

lemma forward_dist_exact:
  "(\<forall>j. 0 < j \<and> j \<le> k \<longrightarrow> rnd (d1_initial + 0.5 * real j) = d1_initial + 0.5 * real j)
     \<Longrightarrow> forward_dist rnd d1_initial k = d1_initial + 0.5 * real k"
proof (induction k)
  case 0
  show ?case by (simp add: forward_dist_0)
next
  case (Suc k)
  then have ih: "forward_dist rnd d1_initial k = d1_initial + 0.5 * real k" by simp
  have "rnd (d1_initial + 0.5 * real (Suc k)) = d1_initial + 0.5 * real (Suc k)"
    using Suc.prems by blast
  moreover have "d1_initial + 0.5 * real k + 0.5 = d1_initial + 0.5 * real (Suc k)"
    by (simp add: field_simps)
  ultimately show ?case
    by (simp only: forward_dist_Suc ih)
qed


subsection \<open>The bisection loop as iterated rounds\<close>

lemma bisect_funpow:
  "bisect rnd s pos0 dir iterations i b = (bisect_round rnd s pos0 dir ^^ nat (iterations - i)) b"
proof (induction rnd s pos0 dir iterations i b rule: bisect.induct)
  case (1 rnd s pos0 dir iterations i b)
  show ?case
  proof (cases "i < iterations")
    case True
    then have n: "nat (iterations - i) = Suc (nat (iterations - (i + 1)))" by simp
    show ?thesis
      using True "1.IH" [OF True]
      by (subst bisect.simps) (simp add: n funpow_Suc_right del: funpow.simps)
  next
    case False
    then show ?thesis by (subst bisect.simps) simp
  qed
qed

lemma bisect_round_trace:
  "trace (bisect_round rnd s pos0 dir b) =
     trace b @ [(Midpoint, vadd rnd pos0 (vmul rnd dir (rnd (0.5 * rnd (d0 b + d1 b)))))]"
  by (simp add: bisect_round_def Let_def)

lemma bisect_round_signs: "signs_differ b \<Longrightarrow> signs_differ (bisect_round rnd s pos0 dir b)"
  by (auto simp: bisect_round_def signs_differ_def Let_def)



lemma rounds_signs: "signs_differ b \<Longrightarrow> signs_differ ((bisect_round rnd s pos0 dir ^^ n) b)"
  by (induction n) (simp_all add: bisect_round_signs)



lemma count_site_append: "count_site site (xs @ ys) = count_site site xs + count_site site ys"
  by (simp add: count_site_def)

lemma count_site_map_same: "count_site site (map (\<lambda>j. (site, g j)) xs) = length xs"
  by (induction xs) (simp_all add: count_site_def)

lemma count_site_map_other: "site \<noteq> site' \<Longrightarrow> count_site site (map (\<lambda>j. (site', g j)) xs) = 0"
  by (induction xs) (simp_all add: count_site_def)

lemma count_site_Cons:
  "count_site site (e # xs) = (if fst e = site then 1 else 0) + count_site site xs"
  by (simp add: count_site_def)

lemma count_site_Nil: "count_site site [] = 0"
  by (simp add: count_site_def)

lemma rounds_count:
  "count_site site (trace ((bisect_round rnd s pos0 dir ^^ n) b)) =
     count_site site (trace b) + (if site = Midpoint then n else 0)"
  by (induction n) (simp_all add: bisect_round_trace count_site_append count_site_Cons count_site_Nil)


lemma nudged_count:
  "count_site site (trace (nudged_bracket rnd s pos0 dir d1_initial)) =
     (case site of AtStart \<Rightarrow> 1 | AtEnd \<Rightarrow> 1 | NudgeBack \<Rightarrow> back_steps rnd s pos0 dir
      | NudgeForward \<Rightarrow> forward_steps rnd s pos0 dir d1_initial | Midpoint \<Rightarrow> 0)"
  by (cases site)
     (simp_all add: nudged_bracket_eq count_site_append count_site_Cons count_site_map_same
        count_site_map_other del: upt_Suc)


lemma final_bracket_cases:
  "final_bracket rnd s pos0 dir d1_initial iterations =
     (if signs_differ (nudged_bracket rnd s pos0 dir d1_initial)
      then (bisect_round rnd s pos0 dir ^^ nat iterations) (nudged_bracket rnd s pos0 dir d1_initial)
      else nudged_bracket rnd s pos0 dir d1_initial)"
  by (simp add: final_bracket_def Let_def signs_differ_def bisect_funpow)

lemma takeWhile_all: "j < length (takeWhile P xs) \<Longrightarrow> P (xs ! j)"
  by (metis nth_mem set_takeWhileD takeWhile_nth)

lemma back_steps_negative: "j < back_steps rnd s pos0 dir \<Longrightarrow> s (back_point rnd pos0 dir j) < 0"
proof -
  assume j: "j < back_steps rnd s pos0 dir"
  let ?P = "\<lambda>j. s (back_point rnd pos0 dir j) < 0"
  from j have "?P ([0..<4] ! j)" unfolding back_steps_def by (rule takeWhile_all)
  moreover have "j < 4" using j back_steps_le [of rnd s pos0 dir] by simp
  ultimately show ?thesis by simp
qed

lemma back_steps_stop:
  assumes "back_steps rnd s pos0 dir < 4"
  shows "0 \<le> s (back_point rnd pos0 dir (back_steps rnd s pos0 dir))"
proof -
  let ?P = "\<lambda>j. s (back_point rnd pos0 dir j) < 0"
  have "length (takeWhile ?P [0..<4]) < length [0..<4]"
    using assms by (simp add: back_steps_def)
  then have "\<not> ?P ([0..<4] ! length (takeWhile ?P [0..<4]))"
    by (rule nth_length_takeWhile)
  then show ?thesis using assms by (simp add: back_steps_def)
qed

lemma forward_steps_positive:
  "j < forward_steps rnd s pos0 dir d1_initial \<Longrightarrow> 0 < s (forward_point rnd pos0 dir d1_initial j)"
proof -
  assume j: "j < forward_steps rnd s pos0 dir d1_initial"
  let ?P = "\<lambda>j. 0 < s (forward_point rnd pos0 dir d1_initial j)"
  from j have "?P ([0..<4] ! j)" unfolding forward_steps_def by (rule takeWhile_all)
  moreover have "j < 4" using j forward_steps_le [of rnd s pos0 dir d1_initial] by simp
  ultimately show ?thesis by simp
qed

lemma forward_steps_stop:
  assumes "forward_steps rnd s pos0 dir d1_initial < 4"
  shows "s (forward_point rnd pos0 dir d1_initial (forward_steps rnd s pos0 dir d1_initial)) \<le> 0"
proof -
  let ?P = "\<lambda>j. 0 < s (forward_point rnd pos0 dir d1_initial j)"
  have "length (takeWhile ?P [0..<4]) < length [0..<4]"
    using assms by (simp add: forward_steps_def)
  then have "\<not> ?P ([0..<4] ! length (takeWhile ?P [0..<4]))"
    by (rule nth_length_takeWhile)
  then show ?thesis using assms by (simp add: forward_steps_def)
qed

subsection \<open>The world-space wrapper under the identity transform\<close>


lemma raycast_generic_calls:
  "snd (raycast_generic ext voxel_data mesher ray_origin ray_dir max_distance p_collision_mask b) = []
     \<longleftrightarrow> mesher = Some (VoxelMesherBlocky None)"
  by (auto simp: raycast_generic_def raycast_blocky_def raycast_nonzero_def raycast_sdf_def Let_def
        split: option.splits VoxelMesher.splits)



subsection \<open>Claims about the refiner\<close>

text \<open>
  Claim C1, as stated, at an input, in binary32 arithmetic: the field is negative at every
  sampled point, so the backward loop runs four times and leaves \<open>d0 = - 2\<close>; the two
  endpoint values have the same sign, and the function returns \<open>- 2\<close>, which is neither
  \<open>0\<close> nor \<open>d1_initial = 1\<close>.
\<close>

theorem same_sign_counterexample:
  "\<not> signs_differ (nudged_bracket (float_round binary32_externals)
        (get_sdf_interpolated binary32_externals field_inside) (Vector3 0 0 0) (Vector3 2 0 0) 1)
   \<and> approximate_distance_to_isosurface_binary_search binary32_externals field_inside
        (Vector3 0 0 0) (Vector3 2 0 0) 1 3 = - 2
   \<and> approximate_distance_to_isosurface_binary_search binary32_externals field_inside
        (Vector3 0 0 0) (Vector3 2 0 0) 1 3 \<notin> {0, 1}"
  by code_simp

text \<open>
  Claim C1, amended: if the two endpoint values have the same sign after the nudging
  loops, no midpoint is sampled, whatever the iteration count, and the function returns an
  endpoint of the nudged bracket: \<open>d0\<close> after its \<open>k0\<close> float subtractions of 0.5 from 0
  when the value sampled there is strictly nearer to zero than the value at the other end,
  and otherwise \<open>d1\<close> after its \<open>k1\<close> float additions of 0.5 to \<open>d1_initial\<close>. The
  statement holds for every rounding function.
\<close>

theorem same_sign_returns_nudged_endpoint:
  assumes "\<not> signs_differ
             (nudged_bracket (float_round ext) (get_sdf_interpolated ext f) pos0 dir d1_initial)"
  shows "(let rnd = float_round ext;
              s = get_sdf_interpolated ext f;
              nb = nudged_bracket rnd s pos0 dir d1_initial;
              k0 = back_steps rnd s pos0 dir;
              k1 = forward_steps rnd s pos0 dir d1_initial
          in final_bracket rnd s pos0 dir d1_initial iterations = nb
             \<and> count_site Midpoint (trace (final_bracket rnd s pos0 dir d1_initial iterations)) = 0
             \<and> k0 \<le> 4 \<and> k1 \<le> 4
             \<and> d0 nb = back_dist rnd k0 \<and> sdf0 nb = s (back_point rnd pos0 dir k0)
             \<and> d1 nb = forward_dist rnd d1_initial k1
             \<and> sdf1 nb = s (forward_point rnd pos0 dir d1_initial k1)
             \<and> approximate_distance_to_isosurface_binary_search ext f pos0 dir d1_initial iterations =
                 (if \<bar>sdf0 nb\<bar> < \<bar>sdf1 nb\<bar> then d0 nb else d1 nb))"
proof -
  let ?rnd = "float_round ext"
  let ?s = "get_sdf_interpolated ext f"
  let ?nb = "nudged_bracket ?rnd ?s pos0 dir d1_initial"
  have fin: "final_bracket ?rnd ?s pos0 dir d1_initial iterations = ?nb"
    using assms by (simp add: final_bracket_cases)
  have cnt: "count_site Midpoint (trace ?nb) = 0"
    by (simp add: nudged_count)
  have res: "approximate_distance_to_isosurface_binary_search ext f pos0 dir d1_initial iterations =
      (if \<bar>sdf0 ?nb\<bar> < \<bar>sdf1 ?nb\<bar> then d0 ?nb else d1 ?nb)"
    by (simp add: approximate_distance_to_isosurface_binary_search_def fin pick_closest_def)
  have ends: "d0 ?nb = back_dist ?rnd (back_steps ?rnd ?s pos0 dir)"
    "sdf0 ?nb = ?s (back_point ?rnd pos0 dir (back_steps ?rnd ?s pos0 dir))"
    "d1 ?nb = forward_dist ?rnd d1_initial (forward_steps ?rnd ?s pos0 dir d1_initial)"
    "sdf1 ?nb = ?s (forward_point ?rnd pos0 dir d1_initial (forward_steps ?rnd ?s pos0 dir d1_initial))"
    by (simp_all add: nudged_bracket_eq)
  show ?thesis
    unfolding Let_def fin
    using cnt res ends back_steps_le [of ?rnd ?s pos0 dir]
      forward_steps_le [of ?rnd ?s pos0 dir d1_initial]
    by blast
qed

text \<open>
  The amended claim C1 in binary32 arithmetic at \<open>d1_initial = 2 ^ 24\<close> with a field that
  is positive everywhere: the four float additions of 0.5 leave \<open>d1\<close> where it is, and the
  function returns 16777216.
\<close>

theorem same_sign_returns_nudged_endpoint_witness:
  "\<not> signs_differ (nudged_bracket (float_round binary32_externals)
        (get_sdf_interpolated binary32_externals field_outside) (Vector3 0 0 0) (Vector3 1 0 0) 16777216)
   \<and> forward_steps (float_round binary32_externals)
        (get_sdf_interpolated binary32_externals field_outside) (Vector3 0 0 0) (Vector3 1 0 0) 16777216 = 4
   \<and> forward_dist (float_round binary32_externals) 16777216 4 = 16777216
   \<and> count_site Midpoint (trace (final_bracket (float_round binary32_externals)
         (get_sdf_interpolated binary32_externals field_outside) (Vector3 0 0 0) (Vector3 1 0 0) 16777216 7)) = 0
   \<and> approximate_distance_to_isosurface_binary_search binary32_externals field_outside
        (Vector3 0 0 0) (Vector3 1 0 0) 16777216 7 = 16777216"
proof -
  let ?rnd = "float_round binary32_externals"
  let ?s = "get_sdf_interpolated binary32_externals field_outside"
  let ?nb = "nudged_bracket ?rnd ?s (Vector3 0 0 0) (Vector3 1 0 0) 16777216"
  have h: "\<not> signs_differ ?nb"
    by code_simp
  have "count_site NudgeForward (trace ?nb) = 4"
    by code_simp
  then have k1: "forward_steps ?rnd ?s (Vector3 0 0 0) (Vector3 1 0 0) 16777216 = 4"
    by (simp add: nudged_count)
  have fd: "forward_dist ?rnd 16777216 4 = 16777216"
    by code_simp
  have v: "\<not> \<bar>sdf0 ?nb\<bar> < \<bar>sdf1 ?nb\<bar>"
    by code_simp
  note T = same_sign_returns_nudged_endpoint [OF h, of 7, unfolded Let_def k1 fd]
  from T have c: "count_site Midpoint (trace (final_bracket ?rnd ?s (Vector3 0 0 0) (Vector3 1 0 0) 16777216 7)) = 0"
    and d: "d1 ?nb = 16777216"
    and r: "approximate_distance_to_isosurface_binary_search binary32_externals field_outside
        (Vector3 0 0 0) (Vector3 1 0 0) 16777216 7 = (if \<bar>sdf0 ?nb\<bar> < \<bar>sdf1 ?nb\<bar> then d0 ?nb else d1 ?nb)"
    by blast+
  have "approximate_distance_to_isosurface_binary_search binary32_externals field_outside
        (Vector3 0 0 0) (Vector3 1 0 0) 16777216 7 = 16777216"
    unfolding r using v d by (simp only: if_False)
  then show ?thesis
    using h k1 fd c by blast
qed

text \<open>
  Claim C4: when the endpoint values of the nudged bracket differ in sign, the function
  performs exactly \<open>iterations\<close> rounds (none for a negative count); every round samples
  the float midpoint \<open>(d0 + d1) / 2\<close> and replaces the endpoint whose value has the sign
  of the midpoint's value, and the signs of the two endpoint values differ before and
  after every round. The statement holds for every rounding function.
\<close>

theorem bisection_rounds:
  assumes "signs_differ (nudged_bracket rnd s pos0 dir d1_initial)"
  shows "(let nb = nudged_bracket rnd s pos0 dir d1_initial;
              b = final_bracket rnd s pos0 dir d1_initial iterations
          in b = (bisect_round rnd s pos0 dir ^^ nat iterations) nb
             \<and> count_site Midpoint (trace b) = nat iterations
             \<and> signs_differ b
             \<and> (\<forall>n. let c = (bisect_round rnd s pos0 dir ^^ n) nb
                     in signs_differ c
                        \<and> bisect_round rnd s pos0 dir c = replace_same_sign rnd s pos0 dir c
                        \<and> trace (bisect_round rnd s pos0 dir c) =
                            trace c @
                              [(Midpoint, vadd rnd pos0 (vmul rnd dir (rnd (rnd (d0 c + d1 c) / 2))))]
                        \<and> signs_differ (bisect_round rnd s pos0 dir c)))"
proof -
  let ?nb = "nudged_bracket rnd s pos0 dir d1_initial"
  let ?round = "bisect_round rnd s pos0 dir"
  have fin: "final_bracket rnd s pos0 dir d1_initial iterations = (?round ^^ nat iterations) ?nb"
    using assms by (simp add: final_bracket_cases)
  have cnt: "count_site Midpoint (trace ((?round ^^ nat iterations) ?nb)) = nat iterations"
    by (simp add: rounds_count nudged_count)
  have inv: "signs_differ ((?round ^^ n) ?nb)" for n
    using assms by (rule rounds_signs)
  have same: "?round c = replace_same_sign rnd s pos0 dir c" if "signs_differ c" for c
    using that by (auto simp: bisect_round_def replace_same_sign_def signs_differ_def Let_def)
  have tr: "trace (?round c) =
      trace c @ [(Midpoint, vadd rnd pos0 (vmul rnd dir (rnd (rnd (d0 c + d1 c) / 2))))]" for c
    by (simp add: bisect_round_trace)
  have rounds: "\<forall>n. let c = (?round ^^ n) ?nb
                     in signs_differ c
                        \<and> ?round c = replace_same_sign rnd s pos0 dir c
                        \<and> trace (?round c) =
                            trace c @
                              [(Midpoint, vadd rnd pos0 (vmul rnd dir (rnd (rnd (d0 c + d1 c) / 2))))]
                        \<and> signs_differ (?round c)"
    unfolding Let_def
  proof (intro allI conjI)
    fix n
    show "signs_differ ((?round ^^ n) ?nb)" by (rule inv)
    show "?round ((?round ^^ n) ?nb) = replace_same_sign rnd s pos0 dir ((?round ^^ n) ?nb)"
      by (rule same [OF inv])
    show "trace (?round ((?round ^^ n) ?nb)) = trace ((?round ^^ n) ?nb) @
        [(Midpoint, vadd rnd pos0 (vmul rnd dir
           (rnd (rnd (d0 ((?round ^^ n) ?nb) + d1 ((?round ^^ n) ?nb)) / 2))))]"
      by (rule tr)
    show "signs_differ (?round ((?round ^^ n) ?nb))"
      by (rule bisect_round_signs [OF inv])
  qed
  show ?thesis
    unfolding Let_def fin
    using rounds [unfolded Let_def] cnt inv [of "nat iterations"] by blast
qed

text \<open>Claim C4 on \<open>field_wavy\<close>, with three rounds, in exact arithmetic.\<close>

theorem bisection_rounds_witness:
  "signs_differ (nudged_bracket exact (trilinear_sample field_wavy) (Vector3 0 0 0) (Vector3 2 0 0) 0.5)
   \<and> count_site Midpoint
        (trace (final_bracket exact (trilinear_sample field_wavy) (Vector3 0 0 0) (Vector3 2 0 0) 0.5 3)) = 3
   \<and> signs_differ (final_bracket exact (trilinear_sample field_wavy) (Vector3 0 0 0) (Vector3 2 0 0) 0.5 3)
   \<and> d0 (final_bracket exact (trilinear_sample field_wavy) (Vector3 0 0 0) (Vector3 2 0 0) 0.5 3) = 1.1875
   \<and> d1 (final_bracket exact (trilinear_sample field_wavy) (Vector3 0 0 0) (Vector3 2 0 0) 0.5 3) = 1.5"
proof -
  have h: "signs_differ (nudged_bracket exact (trilinear_sample field_wavy) (Vector3 0 0 0) (Vector3 2 0 0) 0.5)"
    by code_simp
  have d: "d0 (final_bracket exact (trilinear_sample field_wavy) (Vector3 0 0 0) (Vector3 2 0 0) 0.5 3) = 1.1875"
      "d1 (final_bracket exact (trilinear_sample field_wavy) (Vector3 0 0 0) (Vector3 2 0 0) 0.5 3) = 1.5"
    by code_simp+
  note T = bisection_rounds [OF h, of 3, unfolded Let_def]
  from T have c: "count_site Midpoint
        (trace (final_bracket exact (trilinear_sample field_wavy) (Vector3 0 0 0) (Vector3 2 0 0) 0.5 3)) = nat 3"
    and sd: "signs_differ (final_bracket exact (trilinear_sample field_wavy) (Vector3 0 0 0) (Vector3 2 0 0) 0.5 3)"
    by blast+
  show ?thesis
    using h d c sd by simp
qed



text \<open>
  Claim C6, as stated, at an input, in binary32 arithmetic: at \<open>d1_initial = 2 ^ 24\<close> with
  a field that is positive everywhere the forward loop runs four times, samples the same
  point each time and leaves \<open>d1 = 2 ^ 24\<close>: the float sum \<open>2 ^ 24 + 0.5\<close> is \<open>2 ^ 24\<close>,
  so \<open>d1\<close> is not increased in steps of 0.5.
\<close>

theorem forward_nudge_counterexample:
  "sdf1 (nudged_bracket round_binary32 (trilinear_sample field_outside)
            (Vector3 0 0 0) (Vector3 1 0 0) 16777216) > 0
   \<and> count_site NudgeForward (trace (nudged_bracket round_binary32 (trilinear_sample field_outside)
            (Vector3 0 0 0) (Vector3 1 0 0) 16777216)) = 4
   \<and> filter (\<lambda>e. fst e = NudgeForward) (trace (nudged_bracket round_binary32
            (trilinear_sample field_outside) (Vector3 0 0 0) (Vector3 1 0 0) 16777216)) =
       replicate 4 (NudgeForward, Vector3 16777216 0 0)
   \<and> d1 (nudged_bracket round_binary32 (trilinear_sample field_outside)
            (Vector3 0 0 0) (Vector3 1 0 0) 16777216) = 16777216
   \<and> d1 (nudged_bracket round_binary32 (trilinear_sample field_outside)
            (Vector3 0 0 0) (Vector3 1 0 0) 16777216) \<noteq> 16777216 + 0.5 * 4"
  by code_simp

text \<open>
  Claim C6, amended: before the bisection, \<open>d0\<close> is replaced by the float difference
  \<open>d0 - 0.5\<close> while the sampled value is negative, at most four times, and the loop stops
  at the first value that is not negative; then \<open>d1\<close> is replaced by the float sum
  \<open>d1 + 0.5\<close> while the sampled value is positive, at most four times, and the loop stops
  at the first value that is not positive. The trace has one sample for each step. Where
  the float type holds the multiples of 0.5 that are reached, the steps are exact: \<open>d0\<close>
  is \<open>- 0.5 * k0\<close> and \<open>d1\<close> is \<open>d1_initial + 0.5 * k1\<close>. The statement holds for every
  rounding function.
\<close>

theorem nudging_steps:
  fixes s :: "Vector3 \<Rightarrow> real"
  shows
  "(let b = nudged_bracket rnd s pos0 dir d1_initial;
        k0 = back_steps rnd s pos0 dir;
        k1 = forward_steps rnd s pos0 dir d1_initial
    in k0 \<le> 4 \<and> d0 b = back_dist rnd k0 \<and> sdf0 b = s (back_point rnd pos0 dir k0)
       \<and> count_site NudgeBack (trace b) = k0
       \<and> (\<forall>j < k0. s (back_point rnd pos0 dir j) < 0)
       \<and> (k0 < 4 \<longrightarrow> 0 \<le> s (back_point rnd pos0 dir k0))
       \<and> ((\<forall>j. 0 < j \<and> j \<le> k0 \<longrightarrow> rnd (- 0.5 * real j) = - 0.5 * real j)
             \<longrightarrow> d0 b = - 0.5 * real k0)
       \<and> k1 \<le> 4 \<and> d1 b = forward_dist rnd d1_initial k1
       \<and> sdf1 b = s (forward_point rnd pos0 dir d1_initial k1)
       \<and> count_site NudgeForward (trace b) = k1
       \<and> (\<forall>j < k1. 0 < s (forward_point rnd pos0 dir d1_initial j))
       \<and> (k1 < 4 \<longrightarrow> s (forward_point rnd pos0 dir d1_initial k1) \<le> 0)
       \<and> ((\<forall>j. 0 < j \<and> j \<le> k1 \<longrightarrow> rnd (d1_initial + 0.5 * real j) = d1_initial + 0.5 * real j)
             \<longrightarrow> d1 b = d1_initial + 0.5 * real k1))"
proof -
  let ?b = "nudged_bracket rnd s pos0 dir d1_initial"
  let ?k0 = "back_steps rnd s pos0 dir"
  let ?k1 = "forward_steps rnd s pos0 dir d1_initial"
  have ends: "d0 ?b = back_dist rnd ?k0" "sdf0 ?b = s (back_point rnd pos0 dir ?k0)"
    "d1 ?b = forward_dist rnd d1_initial ?k1"
    "sdf1 ?b = s (forward_point rnd pos0 dir d1_initial ?k1)"
    by (simp_all add: nudged_bracket_eq)
  have counts: "count_site NudgeBack (trace ?b) = ?k0" "count_site NudgeForward (trace ?b) = ?k1"
    by (simp_all add: nudged_count)
  have negs: "\<forall>j < ?k0. s (back_point rnd pos0 dir j) < 0"
    by (simp add: back_steps_negative)
  have poss: "\<forall>j < ?k1. 0 < s (forward_point rnd pos0 dir d1_initial j)"
    by (simp add: forward_steps_positive)
  have stop0: "?k0 < 4 \<longrightarrow> 0 \<le> s (back_point rnd pos0 dir ?k0)"
    using back_steps_stop [of rnd s pos0 dir] by blast
  have stop1: "?k1 < 4 \<longrightarrow> s (forward_point rnd pos0 dir d1_initial ?k1) \<le> 0"
    using forward_steps_stop [of rnd s pos0 dir d1_initial] by blast
  have exact0: "(\<forall>j. 0 < j \<and> j \<le> ?k0 \<longrightarrow> rnd (- 0.5 * real j) = - 0.5 * real j)
             \<longrightarrow> d0 ?b = - 0.5 * real ?k0"
    using back_dist_exact [of ?k0 rnd] ends(1) by simp
  have exact1: "(\<forall>j. 0 < j \<and> j \<le> ?k1 \<longrightarrow> rnd (d1_initial + 0.5 * real j) = d1_initial + 0.5 * real j)
             \<longrightarrow> d1 ?b = d1_initial + 0.5 * real ?k1"
    using forward_dist_exact [of ?k1 rnd d1_initial] ends(3) by simp
  show ?thesis
    unfolding Let_def
    using ends counts negs poss stop0 stop1 exact0 exact1
      back_steps_le [of rnd s pos0 dir] forward_steps_le [of rnd s pos0 dir d1_initial]
    by blast
qed

text \<open>
  The amended claim C6 on \<open>field_wavy\<close> in binary32 arithmetic: two exact steps back and
  two exact steps forward.
\<close>

theorem nudging_steps_witness:
  "back_steps round_binary32 (trilinear_sample field_wavy) (Vector3 0 0 0) (Vector3 2 0 0) = 2
   \<and> forward_steps round_binary32 (trilinear_sample field_wavy) (Vector3 0 0 0) (Vector3 2 0 0) 0.5 = 2
   \<and> round_binary32 (- 0.5 * real (1 :: nat)) = - 0.5 * real (1 :: nat)
   \<and> round_binary32 (- 0.5 * real (2 :: nat)) = - 0.5 * real (2 :: nat)
   \<and> round_binary32 (0.5 + 0.5 * real (1 :: nat)) = 0.5 + 0.5 * real (1 :: nat)
   \<and> round_binary32 (0.5 + 0.5 * real (2 :: nat)) = 0.5 + 0.5 * real (2 :: nat)
   \<and> d0 (nudged_bracket round_binary32 (trilinear_sample field_wavy) (Vector3 0 0 0) (Vector3 2 0 0) 0.5)
        = - 0.5 * real (2 :: nat)
   \<and> d1 (nudged_bracket round_binary32 (trilinear_sample field_wavy) (Vector3 0 0 0) (Vector3 2 0 0) 0.5)
        = 0.5 + 0.5 * real (2 :: nat)
   \<and> trilinear_sample field_wavy (back_point round_binary32 (Vector3 0 0 0) (Vector3 2 0 0) 0) < 0
   \<and> trilinear_sample field_wavy (back_point round_binary32 (Vector3 0 0 0) (Vector3 2 0 0) 1) < 0
   \<and> 0 \<le> trilinear_sample field_wavy (back_point round_binary32 (Vector3 0 0 0) (Vector3 2 0 0) 2)
   \<and> 0 < trilinear_sample field_wavy (forward_point round_binary32 (Vector3 0 0 0) (Vector3 2 0 0) 0.5 0)
   \<and> 0 < trilinear_sample field_wavy (forward_point round_binary32 (Vector3 0 0 0) (Vector3 2 0 0) 0.5 1)
   \<and> trilinear_sample field_wavy (forward_point round_binary32 (Vector3 0 0 0) (Vector3 2 0 0) 0.5 2) \<le> 0"
proof -
  let ?s = "trilinear_sample field_wavy"
  let ?nb = "nudged_bracket round_binary32 ?s (Vector3 0 0 0) (Vector3 2 0 0) 0.5"
  have "count_site NudgeBack (trace ?nb) = 2" by code_simp
  then have k0: "back_steps round_binary32 ?s (Vector3 0 0 0) (Vector3 2 0 0) = 2"
    by (simp add: nudged_count)
  have "count_site NudgeForward (trace ?nb) = 2" by code_simp
  then have k1: "forward_steps round_binary32 ?s (Vector3 0 0 0) (Vector3 2 0 0) 0.5 = 2"
    by (simp add: nudged_count)
  have r: "round_binary32 (- 0.5 * real (1 :: nat)) = - 0.5 * real (1 :: nat)"
    "round_binary32 (- 0.5 * real (2 :: nat)) = - 0.5 * real (2 :: nat)"
    "round_binary32 (0.5 + 0.5 * real (1 :: nat)) = 0.5 + 0.5 * real (1 :: nat)"
    "round_binary32 (0.5 + 0.5 * real (2 :: nat)) = 0.5 + 0.5 * real (2 :: nat)"
    by code_simp+
  have two: "0 < j \<and> j \<le> 2 \<longleftrightarrow> j = 1 \<or> j = 2" for j :: nat
    by auto
  have e0: "\<forall>j. 0 < j \<and> j \<le> (2 :: nat) \<longrightarrow> round_binary32 (- 0.5 * real j) = - 0.5 * real j"
    unfolding two using r(1,2) by blast
  have e1: "\<forall>j. 0 < j \<and> j \<le> (2 :: nat) \<longrightarrow> round_binary32 (0.5 + 0.5 * real j) = 0.5 + 0.5 * real j"
    unfolding two using r(3,4) by blast
  have lt: "j < 2 \<longleftrightarrow> j = 0 \<or> j = 1" for j :: nat
    by auto
  note T = nudging_steps [of round_binary32 ?s "Vector3 0 0 0" "Vector3 2 0 0" "0.5",
      unfolded Let_def k0 k1]
  from T e0 have a: "d0 ?nb = - 0.5 * real (2 :: nat)" by blast
  from T e1 have b: "d1 ?nb = 0.5 + 0.5 * real (2 :: nat)" by blast
  from T have c: "\<forall>j < 2. ?s (back_point round_binary32 (Vector3 0 0 0) (Vector3 2 0 0) j) < 0"
    and d: "0 \<le> ?s (back_point round_binary32 (Vector3 0 0 0) (Vector3 2 0 0) 2)"
    and e: "\<forall>j < 2. 0 < ?s (forward_point round_binary32 (Vector3 0 0 0) (Vector3 2 0 0) 0.5 j)"
    and f: "?s (forward_point round_binary32 (Vector3 0 0 0) (Vector3 2 0 0) 0.5 2) \<le> 0"
    by simp_all
  show ?thesis
    using k0 k1 r a b c d e f unfolding lt by blast
qed



subsection \<open>Claims about the raycast functions\<close>

text \<open>
  Claim C8: when the traversal reports a hit, \<^verbatim>\<open>raycast_sdf\<close> returns the hit cell and the
  previous cell; with a positive iteration count the distance is the float sum of
  \<open>hit_distance_prev\<close> and the refiner's result for the start position
  \<open>ray_origin + ray_dir * hit_distance_prev\<close> and the bracket length
  \<open>hit_distance - hit_distance_prev\<close>, and with the count 0 it is the coarse
  \<open>hit_distance\<close>. The calls are the traversal and, with a positive count, the samples of
  the refiner.
\<close>

theorem raycast_sdf_distance:
  assumes "voxel_raycast ext (vadd (float_round ext) ray_origin (Vector3 0.5 0.5 0.5)) ray_dir
             (RaycastPredicate ext voxel_data) max_distance = Some h"
  shows "(let rnd = float_round ext;
              sampler = VolumeSampler ext voxel_data;
              pos0 = vadd rnd ray_origin (vmul rnd ray_dir (hit_distance_prev h));
              d1 = rnd (hit_distance h - hit_distance_prev h)
          in raycast_sdf ext voxel_data ray_origin ray_dir max_distance binary_search_iterations =
               (Some \<lparr>position = hit_pos h, previous_position = prev_pos h,
                      distance_along_ray =
                        (if 0 < binary_search_iterations then
                           rnd (hit_distance_prev h +
                             approximate_distance_to_isosurface_binary_search ext sampler
                               pos0 ray_dir d1 (uint binary_search_iterations))
                         else hit_distance h)\<rparr>,
                VoxelRaycastCall (vadd rnd ray_origin (Vector3 0.5 0.5 0.5)) ray_dir max_distance #
                  (if 0 < binary_search_iterations then
                     map (\<lambda>(site, p). InterpolationCall site p)
                       (refiner_trace ext sampler pos0 ray_dir d1 (uint binary_search_iterations))
                   else [])))"
  using assms
  by (simp add: raycast_sdf_def Let_def)

text \<open>
  Claim C8 on the wall, in exact arithmetic: the traversal hits the cell \<open>(3, 0, 0)\<close> at
  distance 2.25, two rounds of refinement give 2, and without refinement the distance stays
  2.25.
\<close>

theorem raycast_sdf_distance_witness:
  "voxel_raycast model_externals
       (vadd (float_round model_externals) (Vector3 0.25 0.25 0.25) (Vector3 0.5 0.5 0.5)) (Vector3 1 0 0)
       (RaycastPredicate model_externals wall_data) 10 =
     Some \<lparr>hit_pos = Vector3i 3 0 0, prev_pos = Vector3i 2 0 0, hit_distance = 2.25,
           hit_distance_prev = 1.25\<rparr>
   \<and> approximate_distance_to_isosurface_binary_search model_externals
         (VolumeSampler model_externals wall_data) (Vector3 1.5 0.25 0.25) (Vector3 1 0 0) 1 2 = 0.75
   \<and> fst (raycast_sdf model_externals wall_data (Vector3 0.25 0.25 0.25) (Vector3 1 0 0) 10 2) =
       Some \<lparr>position = Vector3i 3 0 0, previous_position = Vector3i 2 0 0, distance_along_ray = 2\<rparr>
   \<and> raycast_sdf model_externals wall_data (Vector3 0.25 0.25 0.25) (Vector3 1 0 0) 10 0 =
       (Some \<lparr>position = Vector3i 3 0 0, previous_position = Vector3i 2 0 0, distance_along_ray = 2.25\<rparr>,
        [VoxelRaycastCall (Vector3 0.75 0.75 0.75) (Vector3 1 0 0) 10])"
proof -
  let ?h = "\<lparr>hit_pos = Vector3i 3 0 0, prev_pos = Vector3i 2 0 0, hit_distance = 2.25,
             hit_distance_prev = 1.25\<rparr>"
  let ?rnd = "float_round model_externals"
  have h: "voxel_raycast model_externals (vadd ?rnd (Vector3 0.25 0.25 0.25) (Vector3 0.5 0.5 0.5))
      (Vector3 1 0 0) (RaycastPredicate model_externals wall_data) 10 = Some ?h"
    by code_simp
  have r: "approximate_distance_to_isosurface_binary_search model_externals
         (VolumeSampler model_externals wall_data) (Vector3 1.5 0.25 0.25) (Vector3 1 0 0) 1 2 = 0.75"
    by code_simp
  have d: "?rnd (hit_distance_prev ?h +
      approximate_distance_to_isosurface_binary_search model_externals
        (VolumeSampler model_externals wall_data)
        (vadd ?rnd (Vector3 0.25 0.25 0.25) (vmul ?rnd (Vector3 1 0 0) (hit_distance_prev ?h)))
        (Vector3 1 0 0) (?rnd (hit_distance ?h - hit_distance_prev ?h)) (uint (2 :: 8 word))) = 2"
    by code_simp
  have o: "vadd ?rnd (Vector3 0.25 0.25 0.25) (Vector3 0.5 0.5 0.5) = Vector3 0.75 0.75 0.75"
    by code_simp
  have n: "(0 < (2 :: 8 word)) = True" "(0 < (0 :: 8 word)) = False"
    by simp_all
  have refined: "fst (raycast_sdf model_externals wall_data (Vector3 0.25 0.25 0.25) (Vector3 1 0 0) 10 2) =
      Some \<lparr>position = hit_pos ?h, previous_position = prev_pos ?h, distance_along_ray = 2\<rparr>"
    by (simp only: raycast_sdf_distance [OF h, of 2, unfolded Let_def] n if_True d fst_conv)
  have coarse: "raycast_sdf model_externals wall_data (Vector3 0.25 0.25 0.25) (Vector3 1 0 0) 10 0 =
      (Some \<lparr>position = hit_pos ?h, previous_position = prev_pos ?h,
             distance_along_ray = hit_distance ?h\<rparr>,
       [VoxelRaycastCall (Vector3 0.75 0.75 0.75) (Vector3 1 0 0) 10])"
    by (simp only: raycast_sdf_distance [OF h, of 0, unfolded Let_def] n if_False o)
  show ?thesis
    using h r refined coarse by simp
qed

text \<open>
  Claim C9: the predicate of \<^verbatim>\<open>raycast_sdf\<close> reads the SDF channel of the cell, with the
  sentinel \<^verbatim>\<open>SDF_FAR_OUTSIDE\<close> in place of the value where the cell has no data, and
  holds exactly when the value read is less than 0; so a stored value \<open>x\<close> is a hit exactly
  when \<open>x < 0\<close>, and a cell without data is no hit when the sentinel is not negative.
\<close>

theorem sdf_predicate_reads_sdf_channel:
  "RaycastPredicate ext data rs =
     (case data (hit_position rs) CHANNEL_SDF of
        None \<Rightarrow> SDF_FAR_OUTSIDE ext < 0
      | Some v \<Rightarrow> member_f ext v < 0)
   \<and> (data (hit_position rs) CHANNEL_SDF = Some (ValueF x) \<longrightarrow> RaycastPredicate ext data rs = (x < 0))
   \<and> (data (hit_position rs) CHANNEL_SDF = None \<longrightarrow> 0 \<le> SDF_FAR_OUTSIDE ext \<longrightarrow>
         \<not> RaycastPredicate ext data rs)"
  by (simp add: RaycastPredicate_def get_voxel_def Let_def split: option.split)

text \<open>Claim C9 on a solid cell, an empty cell and a cell without data.\<close>

theorem sdf_predicate_reads_sdf_channel_witness:
  "wall_data (Vector3i 3 0 0) CHANNEL_SDF = Some (ValueF (- 3))
   \<and> RaycastPredicate model_externals wall_data \<lparr>hit_position = Vector3i 3 0 0\<rparr>
   \<and> wall_data (Vector3i 2 0 0) CHANNEL_SDF = Some (ValueF 1)
   \<and> \<not> RaycastPredicate model_externals wall_data \<lparr>hit_position = Vector3i 2 0 0\<rparr>
   \<and> (\<lambda>pos channel. None) (Vector3i 2 0 0) CHANNEL_SDF = (None :: VoxelSingleValue option)
   \<and> 0 \<le> SDF_FAR_OUTSIDE model_externals
   \<and> \<not> RaycastPredicate model_externals (\<lambda>pos channel. None) \<lparr>hit_position = Vector3i 2 0 0\<rparr>"
proof -
  have a: "wall_data (Vector3i 3 0 0) CHANNEL_SDF = Some (ValueF (- 3))"
    and b: "wall_data (Vector3i 2 0 0) CHANNEL_SDF = Some (ValueF 1)"
    by (simp_all add: wall_data_def)
  have c: "0 \<le> SDF_FAR_OUTSIDE model_externals"
    by (simp add: model_externals_def)
  show ?thesis
    using a b c
      sdf_predicate_reads_sdf_channel [of model_externals wall_data "\<lparr>hit_position = Vector3i 3 0 0\<rparr>" "- 3"]
      sdf_predicate_reads_sdf_channel [of model_externals wall_data "\<lparr>hit_position = Vector3i 2 0 0\<rparr>" 1]
      sdf_predicate_reads_sdf_channel [of model_externals "\<lambda>pos channel. None"
         "\<lparr>hit_position = Vector3i 2 0 0\<rparr>" 0]
    by simp
qed

text \<open>
  Claim C10: if the squared distance that \<^verbatim>\<open>raycast_generic_world\<close> computes between the
  two ray endpoints in local space is below the float \<open>0.000001\<close>, the function returns an
  absent result and has called no collaborator: no traversal has run, so no predicate was
  called and no voxel was read. A call of \<^verbatim>\<open>raycast_generic\<close>, with whatever arguments,
  would have left a call in the list, unless the mesher is blocky with a null library.
\<close>

theorem degenerate_segment_is_absent:
  assumes "distance_squared_to (float_round ext)
             (xform ext (affine_inverse ext to_world) ray_origin_world)
             (xform ext (affine_inverse ext to_world)
                (vadd (float_round ext) ray_origin_world
                   (vmul (float_round ext) ray_dir_world max_distance_world)))
           < float_round ext 0.000001"
  shows "raycast_generic_world ext voxel_data mesher to_world ray_origin_world ray_dir_world
           max_distance_world p_collision_mask binary_search_iterations = (None, [])
         \<and> (mesher \<noteq> Some (VoxelMesherBlocky None) \<longrightarrow>
              snd (raycast_generic ext voxel_data mesher pos0_local dir_local max_distance_local
                     p_collision_mask 0) \<noteq> [])"
  using assms by (simp add: raycast_generic_world_def Let_def raycast_generic_calls)

text \<open>
  Claim C10 in binary32 arithmetic on a ray of length \<open>0.001\<close> that enters a cell with
  colour data: the squared length is below the float \<open>0.000001\<close>.
\<close>

theorem degenerate_segment_is_absent_witness:
  "distance_squared_to (float_round binary32_externals)
       (xform binary32_externals (affine_inverse binary32_externals (Vector3 0 0 0))
          (Vector3 (round_binary32 0.9995) 0.5 0.5))
       (xform binary32_externals (affine_inverse binary32_externals (Vector3 0 0 0))
          (vadd (float_round binary32_externals) (Vector3 (round_binary32 0.9995) 0.5 0.5)
             (vmul (float_round binary32_externals) (Vector3 1 0 0) (round_binary32 0.001))))
     < float_round binary32_externals 0.000001
   \<and> raycast_generic_world binary32_externals wall_data (Some VoxelMesherCubes) (Vector3 0 0 0)
        (Vector3 (round_binary32 0.9995) 0.5 0.5) (Vector3 1 0 0) (round_binary32 0.001) 1 0 = (None, [])
   \<and> snd (raycast_generic binary32_externals wall_data (Some VoxelMesherCubes)
          (Vector3 (round_binary32 0.9995) 0.5 0.5) (Vector3 1 0 0) (round_binary32 0.001) 1 0) \<noteq> []"
proof -
  have h: "distance_squared_to (float_round binary32_externals)
       (xform binary32_externals (affine_inverse binary32_externals (Vector3 0 0 0))
          (Vector3 (round_binary32 0.9995) 0.5 0.5))
       (xform binary32_externals (affine_inverse binary32_externals (Vector3 0 0 0))
          (vadd (float_round binary32_externals) (Vector3 (round_binary32 0.9995) 0.5 0.5)
             (vmul (float_round binary32_externals) (Vector3 1 0 0) (round_binary32 0.001))))
     < float_round binary32_externals 0.000001"
    by code_simp
  have m: "Some VoxelMesherCubes \<noteq> Some (VoxelMesherBlocky None)"
    by simp
  note T = degenerate_segment_is_absent [OF h, of wall_data "Some VoxelMesherCubes" 1 0
      "Vector3 (round_binary32 0.9995) 0.5 0.5" "Vector3 1 0 0" "round_binary32 0.001"]
  show ?thesis
    using h m T by blast
qed

text \<open>
  Claim C3: the results of \<^verbatim>\<open>raycast_generic\<close> and of \<^verbatim>\<open>raycast_generic_world\<close> are the
  same for any two values of the argument \<open>binary_search_iterations\<close>; for a mesher that
  is neither blocky nor cubes (or is null) \<^verbatim>\<open>raycast_generic\<close> is \<^verbatim>\<open>raycast_sdf\<close> with
  the iteration count 0, which returns the hit of the traversal unrefined.
\<close>

theorem iterations_argument_ignored:
  "raycast_generic ext voxel_data mesher ray_origin ray_dir max_distance p_collision_mask b1 =
     raycast_generic ext voxel_data mesher ray_origin ray_dir max_distance p_collision_mask b2
   \<and> raycast_generic_world ext voxel_data mesher to_world ray_origin ray_dir max_distance
        p_collision_mask b1 =
     raycast_generic_world ext voxel_data mesher to_world ray_origin ray_dir max_distance
        p_collision_mask b2
   \<and> raycast_generic ext voxel_data (Some VoxelMesherOther) ray_origin ray_dir max_distance
        p_collision_mask b1 =
     raycast_sdf ext voxel_data ray_origin ray_dir max_distance 0
   \<and> raycast_generic ext voxel_data None ray_origin ray_dir max_distance p_collision_mask b1 =
     raycast_sdf ext voxel_data ray_origin ray_dir max_distance 0
   \<and> raycast_sdf ext voxel_data ray_origin ray_dir max_distance 0 =
     (map_option result_of_hit
        (voxel_raycast ext (vadd (float_round ext) ray_origin (Vector3 0.5 0.5 0.5)) ray_dir
           (RaycastPredicate ext voxel_data) max_distance),
      [VoxelRaycastCall (vadd (float_round ext) ray_origin (Vector3 0.5 0.5 0.5)) ray_dir
         max_distance])"
  by (simp add: raycast_generic_def raycast_generic_world_def raycast_sdf_def result_of_hit_def
        Let_def split: option.split)




end
